theory Spec2Isabelle
  imports Main "HOL-Library.Word"
begin

section \<open>JavaScript strings and the built-ins the tools use\<close>

text \<open>
  A JavaScript string is a sequence of UTF-16 code units; \<open>length\<close>, \<open>substring\<close>
  and \<open>trim\<close> count and cut code units, so a string is modelled as a list of 16-bit
  words. \<open>js\<close> embeds an ASCII literal.
\<close>

type_synonym jsstring = "16 word list"

definition js :: "string \<Rightarrow> jsstring" where
  "js s = map (\<lambda>c. of_nat (of_char c)) s"

text \<open>
  \<open>String.prototype.trim\<close> removes leading and trailing WhiteSpace and LineTerminator
  code points (ECMA-262): TAB, LF, VT, FF, CR, SP, NBSP, U+1680, U+2000..U+200A, U+2028,
  U+2029, U+202F, U+205F, U+3000 and U+FEFF.
\<close>

definition isWhiteSpace :: "16 word \<Rightarrow> bool" where
  "isWhiteSpace c \<longleftrightarrow>
     c = 0x09 \<or> c = 0x0A \<or> c = 0x0B \<or> c = 0x0C \<or> c = 0x0D \<or> c = 0x20 \<or> c = 0xA0 \<or>
     c = 0x1680 \<or> (0x2000 \<le> c \<and> c \<le> 0x200A) \<or> c = 0x2028 \<or> c = 0x2029 \<or>
     c = 0x202F \<or> c = 0x205F \<or> c = 0x3000 \<or> c = 0xFEFF"

definition trim :: "jsstring \<Rightarrow> jsstring" where
  "trim s = rev (dropWhile isWhiteSpace (rev (dropWhile isWhiteSpace s)))"

text \<open>\<open>s.substring(start, end)\<close> for non-negative integer arguments: both are capped at
  the length and swapped when out of order.\<close>

definition substring :: "jsstring \<Rightarrow> nat \<Rightarrow> nat \<Rightarrow> jsstring" where
  "substring s start end' =
     (let a = min start (length s); b = min end' (length s)
      in take (max a b - min a b) (drop (min a b) s))"

definition startsWith :: "jsstring \<Rightarrow> jsstring \<Rightarrow> bool" where
  "startsWith s p \<longleftrightarrow> take (length p) s = p"

text \<open>Decimal rendering of a non-negative integer, as a template literal renders it.\<close>

definition digitChar :: "nat \<Rightarrow> 16 word" where
  "digitChar d = of_nat (48 + d)"

fun decimal :: "nat \<Rightarrow> jsstring" where
  "decimal n = (if n < 10 then [digitChar n] else decimal (n div 10) @ [digitChar (n mod 10)])"

declare decimal.simps [simp del]

section \<open>Thrown values and what a catch clause reads from them\<close>

text \<open>
  A thrown value is an \<open>Error\<close> instance with its \<open>name\<close> and \<open>message\<close>, or any other
  value, kept as what \<open>String(error)\<close> makes of it.
\<close>

datatype thrown = JsError jsstring jsstring | JsValue jsstring

text \<open>\<open>error instanceof Error ? error.message : String(error)\<close>\<close>

fun errorText :: "thrown \<Rightarrow> jsstring" where
  "errorText (JsError nm msg) = msg"
| "errorText (JsValue s) = s"

text \<open>\<open>error instanceof Error ? error.message : 'Unknown error'\<close>\<close>

fun errorMessageOrUnknown :: "thrown \<Rightarrow> jsstring" where
  "errorMessageOrUnknown (JsError nm msg) = msg"
| "errorMessageOrUnknown (JsValue s) = js ''Unknown error''"

text \<open>\<open>new Error(msg)\<close>\<close>

definition newError :: "jsstring \<Rightarrow> thrown" where
  "newError msg = JsError (js ''Error'') msg"

section \<open>External services\<close>

text \<open>
  Every external call a stage issues is logged, so that "no external call" is a statement
  about the log. \<open>generateText\<close> of the AI SDK either resolves with a text or rejects;
  the service is a function of the position of the call within the stage and of the
  request prompt. Every call is taken to settle.

  The \<open>logger?.info\<close>, \<open>logger?.warn\<close> and \<open>logger?.error\<close> calls of the tools are left
  out: the logger is optional, its arguments are built from strings with \<open>substring\<close>
  and \<open>length\<close> only, and no result depends on it.
\<close>

datatype call = GenerateText jsstring | Fetch jsstring

type_synonym text_service = "nat \<Rightarrow> jsstring \<Rightarrow> thrown + jsstring"

section \<open>Result objects\<close>

record flagged =
  success :: bool

record tool_result = flagged +
  message :: jsstring
  originalPrompt :: jsstring
  error :: "jsstring option"

record enhance_result = tool_result +
  enhancedPrompt :: jsstring
  style :: jsstring

section \<open>promptEnhancerTool.ts: enhancePrompt\<close>

definition nl :: jsstring where
  "nl = [0x0A]"

definition dq :: jsstring where
  "dq = [0x22]"

definition enhanceRequest :: "jsstring \<Rightarrow> jsstring \<Rightarrow> jsstring" where
  "enhanceRequest originalPrompt' style' =
     js ''You are an expert at creating detailed, high-quality prompts for AI image generation. '' @ nl
     @ nl
     @ js ''Your task is to enhance this user prompt: '' @ dq @ originalPrompt' @ dq @ nl
     @ nl
     @ js ''Style preference: '' @ style' @ nl
     @ nl
     @ js ''Please enhance this prompt by:'' @ nl
     @ js ''1. Adding specific visual details (lighting, composition, colors)'' @ nl
     @ js ''2. Including artistic style information '' @ nl
     @ js ''3. Specifying image quality descriptors'' @ nl
     @ js ''4. Making it more descriptive while keeping the core intent'' @ nl
     @ js ''5. Ensuring it'' @ [0x27] @ js ''s suitable for image generation APIs'' @ nl
     @ nl
     @ js ''Keep the enhanced prompt under 400 characters and make it natural and flowing.'' @ nl
     @ nl
     @ js ''Return ONLY the enhanced prompt text, nothing else:''"

text \<open>The fallback of the catch clause (line 71).\<close>

definition fallbackPrompt :: "jsstring \<Rightarrow> jsstring \<Rightarrow> jsstring" where
  "fallbackPrompt originalPrompt' style' =
     originalPrompt' @ js '', high quality, detailed, '' @ style'
       @ js '' style, professional photography''"

text \<open>The try block (lines 25-63): the calls it issued, and what it returned or threw.\<close>

definition enhancePrompt_try ::
  "text_service \<Rightarrow> jsstring \<Rightarrow> jsstring \<Rightarrow> call list \<times> (thrown + enhance_result)" where
  "enhancePrompt_try generateText originalPrompt' style' =
     (if originalPrompt' = [] \<or> length (trim originalPrompt') = 0
      then ([], Inl (newError (js ''Original prompt cannot be empty'')))
      else
        let request = enhanceRequest originalPrompt' style' in
        case generateText 0 request of
          Inl e \<Rightarrow> ([GenerateText request], Inl e)
        | Inr text' \<Rightarrow>
            let enhanced = trim text' in
            ([GenerateText request],
             Inr \<lparr> success = True,
                   message = js ''Successfully enhanced prompt using Gemini AI'',
                   originalPrompt = originalPrompt',
                   error = None,
                   enhancedPrompt = enhanced,
                   style = style' \<rparr>))"

text \<open>The catch clause (lines 64-81).\<close>

definition enhancePrompt_catch :: "jsstring \<Rightarrow> jsstring \<Rightarrow> thrown \<Rightarrow> enhance_result" where
  "enhancePrompt_catch originalPrompt' style' e =
     \<lparr> success = False,
       message = js ''Prompt enhancement failed, using fallback: '' @ errorMessageOrUnknown e,
       originalPrompt = originalPrompt',
       error = Some (errorText e),
       enhancedPrompt = fallbackPrompt originalPrompt' style',
       style = style' \<rparr>"

text \<open>
  \<open>enhancePrompt\<close>: \<open>style\<close> defaults to \<open>"realistic"\<close>. The result is the log of
  external calls and either a value thrown to the caller (\<open>Inl\<close>) or the returned object.
\<close>

definition enhancePrompt ::
  "text_service \<Rightarrow> jsstring \<Rightarrow> jsstring option \<Rightarrow> call list \<times> (thrown + enhance_result)" where
  "enhancePrompt generateText originalPrompt' styleArg =
     (let style' = (case styleArg of None \<Rightarrow> js ''realistic'' | Some s \<Rightarrow> s) in
      case enhancePrompt_try generateText originalPrompt' style' of
        (calls, Inr r) \<Rightarrow> (calls, Inr r)
      | (calls, Inl e) \<Rightarrow> (calls, Inr (enhancePrompt_catch originalPrompt' style' e)))"

section \<open>imageGenerationTool.ts: generateImage\<close>

text \<open>
  \<open>encodeURIComponent\<close> (ECMA-262, Encode): the unreserved code units are copied; any
  other code point is written as the percent-escaped octets of its UTF-8 encoding; a
  surrogate code unit without its partner raises a URIError (\<open>None\<close>).
\<close>

definition isUnescaped :: "16 word \<Rightarrow> bool" where
  "isUnescaped c \<longleftrightarrow>
     (0x41 \<le> c \<and> c \<le> 0x5A) \<or> (0x61 \<le> c \<and> c \<le> 0x7A) \<or> (0x30 \<le> c \<and> c \<le> 0x39) \<or>
     c = 0x2D \<or> c = 0x5F \<or> c = 0x2E \<or> c = 0x21 \<or> c = 0x7E \<or> c = 0x2A \<or>
     c = 0x27 \<or> c = 0x28 \<or> c = 0x29"

definition hexDigit :: "nat \<Rightarrow> 16 word" where
  "hexDigit d = (if d < 10 then of_nat (48 + d) else of_nat (55 + d))"

definition percentByte :: "nat \<Rightarrow> jsstring" where
  "percentByte b = [0x25, hexDigit (b div 16), hexDigit (b mod 16)]"

definition utf8 :: "nat \<Rightarrow> nat list" where
  "utf8 cp =
     (if cp < 0x80 then [cp]
      else if cp < 0x800 then [0xC0 + cp div 64, 0x80 + cp mod 64]
      else if cp < 0x10000 then [0xE0 + cp div 4096, 0x80 + (cp div 64) mod 64, 0x80 + cp mod 64]
      else [0xF0 + cp div 262144, 0x80 + (cp div 4096) mod 64, 0x80 + (cp div 64) mod 64,
            0x80 + cp mod 64])"

definition percentEncode :: "nat \<Rightarrow> jsstring" where
  "percentEncode cp = concat (map percentByte (utf8 cp))"

definition isLeadSurrogate :: "16 word \<Rightarrow> bool" where
  "isLeadSurrogate c \<longleftrightarrow> 0xD800 \<le> c \<and> c \<le> 0xDBFF"

definition isTrailSurrogate :: "16 word \<Rightarrow> bool" where
  "isTrailSurrogate c \<longleftrightarrow> 0xDC00 \<le> c \<and> c \<le> 0xDFFF"

definition surrogatePair :: "16 word \<Rightarrow> 16 word \<Rightarrow> nat" where
  "surrogatePair hi lo = (unat hi - 0xD800) * 0x400 + (unat lo - 0xDC00) + 0x10000"

fun encodeURIComponent :: "jsstring \<Rightarrow> jsstring option" where
  "encodeURIComponent [] = Some []"
| "encodeURIComponent (c # cs) =
     (if isUnescaped c then map_option (\<lambda>r. c # r) (encodeURIComponent cs)
      else if isTrailSurrogate c then None
      else if isLeadSurrogate c then
        (case cs of
           [] \<Rightarrow> None
         | d # ds \<Rightarrow>
             if isTrailSurrogate d
             then map_option (\<lambda>r. percentEncode (surrogatePair c d) @ r) (encodeURIComponent ds)
             else None)
      else map_option (\<lambda>r. percentEncode (unat c) @ r) (encodeURIComponent cs))"

text \<open>\<open>Buffer.from(bytes).toString('base64')\<close>: the standard alphabet, padded with \<open>=\<close>.\<close>

definition base64Char :: "nat \<Rightarrow> 16 word" where
  "base64Char n =
     (if n < 26 then of_nat (65 + n)
      else if n < 52 then of_nat (97 + (n - 26))
      else if n < 62 then of_nat (48 + (n - 52))
      else if n = 62 then 0x2B
      else 0x2F)"

fun base64 :: "8 word list \<Rightarrow> jsstring" where
  "base64 [] = []"
| "base64 [a] =
     [base64Char (unat a div 4), base64Char ((unat a mod 4) * 16), 0x3D, 0x3D]"
| "base64 [a, b] =
     [base64Char (unat a div 4), base64Char ((unat a mod 4) * 16 + unat b div 16),
      base64Char ((unat b mod 16) * 4), 0x3D]"
| "base64 (a # b # c # rest) =
     [base64Char (unat a div 4), base64Char ((unat a mod 4) * 16 + unat b div 16),
      base64Char ((unat b mod 16) * 4 + unat c div 64), base64Char (unat c mod 64)]
     @ base64 rest"

text \<open>
  The response of \<open>fetch\<close>: the status line, what \<open>headers.get('content-type')\<close> gives
  (\<open>None\<close> is \<open>null\<close>), and what \<open>arrayBuffer()\<close> resolves with or rejects with.
  \<open>response.ok\<close> is true exactly for the statuses 200 to 299.
\<close>

record http_response =
  status :: nat
  statusText :: jsstring
  contentType :: "jsstring option"
  body :: "thrown + 8 word list"

definition ok :: "http_response \<Rightarrow> bool" where
  "ok response \<longleftrightarrow> 200 \<le> status response \<and> status response \<le> 299"

text \<open>
  What awaiting \<open>fetch(imageUrl, {signal})\<close> ends in (lines 44-54). \<open>Aborted m\<close>: the
  30000 ms timer fired while the request was in flight, its callback called
  \<open>controller.abort()\<close>, which cancels the request, and \<open>fetch\<close> rejected with an
  AbortError (an instance of Error) whose message is \<open>m\<close>. The timer is cleared as soon as
  \<open>fetch\<close> resolves, so it can fire in no other place.
\<close>

datatype fetch_outcome = Rejected thrown | Aborted jsstring | Responded http_response

type_synonym http_service = "jsstring \<Rightarrow> fetch_outcome"

record image_result = tool_result +
  imageBase64 :: "jsstring option"
  mimeType :: "jsstring option"
  imageUrl :: "jsstring option"

text \<open>A template literal renders an integer below \<open>10^21\<close> in decimal.\<close>

definition intToString :: "int \<Rightarrow> jsstring" where
  "intToString i = (if i < 0 then 0x2D # decimal (nat (- i)) else decimal (nat i))"

text \<open>\<open>Math.min(Math.max(x, 256), 1024)\<close> (lines 34 and 35), on integers.\<close>

definition clampSize :: "int \<Rightarrow> int" where
  "clampSize x = min (max x 256) 1024"

text \<open>The request URL (line 39).\<close>

definition requestUrl :: "jsstring \<Rightarrow> int \<Rightarrow> int \<Rightarrow> jsstring" where
  "requestUrl encodedPrompt width height =
     js ''https://image.pollinations.ai/prompt/'' @ encodedPrompt
       @ js ''?width='' @ intToString width @ js ''&height='' @ intToString height
       @ js ''&seed=random''"

text \<open>
  The try block (lines 22-81): the calls it issued, the value of the variable \<open>prompt\<close>
  when it ended (line 30 reassigns it, and the catch clause reads it), and what it
  returned or threw.
\<close>

definition generateImage_try ::
  "http_service \<Rightarrow> jsstring \<Rightarrow> int \<Rightarrow> int \<Rightarrow> call list \<times> jsstring \<times> (thrown + image_result)" where
  "generateImage_try fetch prompt0 width0 height0 =
     (if prompt0 = [] \<or> length (trim prompt0) = 0
      then ([], prompt0, Inl (newError (js ''Prompt cannot be empty'')))
      else
        let prompt = (if length prompt0 > 500 then substring prompt0 0 500 else prompt0);
            width = clampSize width0;
            height = clampSize height0
        in
        case encodeURIComponent (trim prompt) of
          None \<Rightarrow> ([], prompt, Inl (JsError (js ''URIError'') (js ''URI malformed'')))
        | Some encodedPrompt \<Rightarrow>
            let url = requestUrl encodedPrompt width height in
            (case fetch url of
               Rejected e \<Rightarrow> ([Fetch url], prompt, Inl e)
             | Aborted m \<Rightarrow> ([Fetch url], prompt, Inl (JsError (js ''AbortError'') m))
             | Responded response \<Rightarrow>
                 if \<not> ok response
                 then ([Fetch url], prompt,
                       Inl (newError (js ''Pollinations API failed: '' @ decimal (status response)
                                       @ js '' '' @ statusText response)))
                 else
                   (case contentType response of
                      None \<Rightarrow>
                        ([Fetch url], prompt,
                         Inl (newError (js ''Invalid content type received: null'')))
                    | Some ct \<Rightarrow>
                        if ct = [] \<or> \<not> startsWith ct (js ''image/'')
                        then ([Fetch url], prompt,
                              Inl (newError (js ''Invalid content type received: '' @ ct)))
                        else
                          (case body response of
                             Inl e \<Rightarrow> ([Fetch url], prompt, Inl e)
                           | Inr imageBuffer \<Rightarrow>
                               ([Fetch url], prompt,
                                Inr \<lparr> success = True,
                                      message =
                                        [0x2705]
                                          @ js '' Successfully generated image using free AI service for: ''
                                          @ dq @ prompt @ dq,
                                      originalPrompt = prompt,
                                      error = None,
                                      imageBase64 = Some (base64 imageBuffer),
                                      mimeType = Some ct,
                                      imageUrl = Some url \<rparr>)))))"

text \<open>The catch clause (lines 83-97).\<close>

definition generateImage_catch :: "jsstring \<Rightarrow> thrown \<Rightarrow> image_result" where
  "generateImage_catch prompt e =
     \<lparr> success = False,
       message = [0x274C] @ js '' Image generation failed: '' @ errorMessageOrUnknown e
                   @ js ''. Will try ASCII art fallback.'',
       originalPrompt = prompt,
       error = Some (errorText e),
       imageBase64 = None,
       mimeType = None,
       imageUrl = None \<rparr>"

text \<open>\<open>generateImage\<close>: \<open>width\<close> and \<open>height\<close> default to 1024.\<close>

definition generateImage ::
  "http_service \<Rightarrow> jsstring \<Rightarrow> int option \<Rightarrow> int option \<Rightarrow> call list \<times> (thrown + image_result)" where
  "generateImage fetch prompt0 widthArg heightArg =
     (let width0 = (case widthArg of None \<Rightarrow> 1024 | Some w \<Rightarrow> w);
          height0 = (case heightArg of None \<Rightarrow> 1024 | Some h \<Rightarrow> h)
      in
      case generateImage_try fetch prompt0 width0 height0 of
        (calls, prompt, Inr r) \<Rightarrow> (calls, Inr r)
      | (calls, prompt, Inl e) \<Rightarrow> (calls, Inr (generateImage_catch prompt e)))"

section \<open>asciiArtFallbackTool.ts: generateAsciiArt\<close>

record ascii_result = tool_result +
  asciiArt :: jsstring
  description :: jsstring

definition artRequest :: "jsstring \<Rightarrow> jsstring" where
  "artRequest prompt =
     js ''You are an ASCII art generator. Create simple, recognizable ASCII art based on this prompt: ''
       @ dq @ prompt @ dq @ nl
     @ nl
     @ js ''Guidelines:'' @ nl
     @ js ''1. Keep it simple and recognizable'' @ nl
     @ js ''2. Use basic ASCII characters (letters, numbers, symbols)'' @ nl
     @ js ''3. Maximum 15 lines tall and 40 characters wide'' @ nl
     @ js ''4. Make it clean and readable in monospace font'' @ nl
     @ js ''5. Focus on the main subject of the prompt'' @ nl
     @ nl
     @ js ''Create ASCII art that represents: '' @ prompt @ nl
     @ nl
     @ js ''Return only the ASCII art, no explanations or extra text:''"

definition descriptionRequest :: "jsstring \<Rightarrow> jsstring" where
  "descriptionRequest prompt =
     js ''Create a vivid, detailed description of what an image would look like for this prompt: ''
       @ dq @ prompt @ dq @ nl
     @ nl
     @ js ''Include:'' @ nl
     @ js ''- Main subjects and objects'' @ nl
     @ js ''- Colors and lighting'' @ nl
     @ js ''- Composition and style'' @ nl
     @ js ''- Mood and atmosphere'' @ nl
     @ js ''- Artistic details'' @ nl
     @ nl
     @ js ''Keep it engaging and imaginative, about 2-3 sentences:''"

text \<open>The two placeholders of the catch clause (lines 79-84 and 89).\<close>

definition fallbackArt :: jsstring where
  "fallbackArt =
     nl @ js ''    '' @ [0xAF, 0x5C] @ js ''_('' @ [0x30C4] @ js '')_/'' @ [0xAF] @ nl
     @ js ''  Image generation'' @ nl
     @ js ''   failed, but I'' @ nl
     @ js ''    tried my best!'' @ nl
     @ js ''    ''"

definition fallbackDescription :: "jsstring \<Rightarrow> jsstring" where
  "fallbackDescription prompt =
     js ''I wanted to create something for '' @ dq @ prompt @ dq
       @ js '' but encountered an error. Here'' @ [0x27] @ js ''s a friendly ASCII instead!''"

text \<open>The try block (lines 22-71).\<close>

definition generateAsciiArt_try ::
  "text_service \<Rightarrow> jsstring \<Rightarrow> call list \<times> (thrown + ascii_result)" where
  "generateAsciiArt_try generateText prompt =
     (if prompt = [] \<or> length (trim prompt) = 0
      then ([], Inl (newError (js ''Prompt cannot be empty'')))
      else
        let request1 = artRequest prompt in
        case generateText 0 request1 of
          Inl e \<Rightarrow> ([GenerateText request1], Inl e)
        | Inr text' \<Rightarrow>
            let art = trim text';
                request2 = descriptionRequest prompt
            in
            (case generateText 1 request2 of
               Inl e \<Rightarrow> ([GenerateText request1, GenerateText request2], Inl e)
             | Inr description' \<Rightarrow>
                 ([GenerateText request1, GenerateText request2],
                  Inr \<lparr> success = True,
                        message = [0x2728] @ js '' Created ASCII art representation using Gemini AI'',
                        originalPrompt = prompt,
                        error = None,
                        asciiArt = art,
                        description = trim description' \<rparr>)))"

text \<open>The catch clause (lines 72-94).\<close>

definition generateAsciiArt_catch :: "jsstring \<Rightarrow> thrown \<Rightarrow> ascii_result" where
  "generateAsciiArt_catch prompt e =
     \<lparr> success = False,
       message = js ''ASCII art generation failed: '' @ errorMessageOrUnknown e,
       originalPrompt = prompt,
       error = Some (errorText e),
       asciiArt = fallbackArt,
       description = fallbackDescription prompt \<rparr>"

definition generateAsciiArt ::
  "text_service \<Rightarrow> jsstring \<Rightarrow> call list \<times> (thrown + ascii_result)" where
  "generateAsciiArt generateText prompt =
     (case generateAsciiArt_try generateText prompt of
        (calls, Inr r) \<Rightarrow> (calls, Inr r)
      | (calls, Inl e) \<Rightarrow> (calls, Inr (generateAsciiArt_catch prompt e)))"

section \<open>telegramReplyTool.ts: sendTelegramMessage\<close>

record telegram_result = flagged +
  chatId :: jsstring
  messagePreview :: jsstring
  sentAt :: jsstring
  hasImage :: bool

text \<open>\<open>!!imageData\<close>: an absent argument and the empty string are both falsy.\<close>

definition truthyString :: "jsstring option \<Rightarrow> bool" where
  "truthyString v \<longleftrightarrow> (case v of None \<Rightarrow> False | Some s \<Rightarrow> s \<noteq> [])"

text \<open>\<open>String(error)\<close>, as the template literal of line 40 renders the caught value
  (\<open>Error.prototype.toString\<close> for an Error).\<close>

fun thrownToString :: "thrown \<Rightarrow> jsstring" where
  "thrownToString (JsError nm msg) =
     (if nm = [] then msg else if msg = [] then nm else nm @ js '': '' @ msg)"
| "thrownToString (JsValue s) = s"

text \<open>
  The try block (lines 17-37). \<open>now\<close> is what \<open>new Date().toISOString()\<close> gives when
  the message is prepared. Nothing in the block throws.
\<close>

definition sendTelegramMessage_try ::
  "jsstring \<Rightarrow> jsstring \<Rightarrow> jsstring \<Rightarrow> jsstring option \<Rightarrow> thrown + telegram_result" where
  "sendTelegramMessage_try now chatId' message' imageData =
     Inr \<lparr> success = True,
           chatId = chatId',
           messagePreview =
             substring message' 0 100 @ (if length message' > 100 then js ''...'' else []),
           sentAt = now,
           hasImage = truthyString imageData \<rparr>"

text \<open>\<open>sendTelegramMessage\<close>: the catch clause (lines 38-41) throws a new Error.\<close>

definition sendTelegramMessage ::
  "jsstring \<Rightarrow> jsstring \<Rightarrow> jsstring \<Rightarrow> jsstring option \<Rightarrow> thrown + telegram_result" where
  "sendTelegramMessage now chatId' message' imageData =
     (case sendTelegramMessage_try now chatId' message' imageData of
        Inr r \<Rightarrow> Inr r
      | Inl e \<Rightarrow> Inl (newError (js ''Failed to prepare Telegram message: '' @ thrownToString e)))"

section \<open>The workflow: parsing the Telegram envelope (useAgentStep, lines 29-31)\<close>

subsection \<open>JSON.parse\<close>

text \<open>
  The values \<open>JSON.parse\<close> produces. A number is kept as the decimal it was written as,
  \<open>JNumber m e\<close> standing for \<open>m * 10^e\<close>; an object keeps its members in source order
  (a later duplicate key wins on lookup).
\<close>

datatype json =
    JNull
  | JBool bool
  | JNumber int int
  | JString jsstring
  | JArray "json list"
  | JObject "(jsstring \<times> json) list"

definition isJsonSpace :: "16 word \<Rightarrow> bool" where
  "isJsonSpace c \<longleftrightarrow> c = 0x20 \<or> c = 0x09 \<or> c = 0x0A \<or> c = 0x0D"

definition skipSpace :: "jsstring \<Rightarrow> jsstring" where
  "skipSpace s = dropWhile isJsonSpace s"

definition isDigit :: "16 word \<Rightarrow> bool" where
  "isDigit c \<longleftrightarrow> 0x30 \<le> c \<and> c \<le> 0x39"

definition digitsValue :: "jsstring \<Rightarrow> nat" where
  "digitsValue ds = foldl (\<lambda>acc c. acc * 10 + (unat c - 48)) 0 ds"

definition hexValue :: "16 word \<Rightarrow> nat option" where
  "hexValue c =
     (if 0x30 \<le> c \<and> c \<le> 0x39 then Some (unat c - 48)
      else if 0x41 \<le> c \<and> c \<le> 0x46 then Some (unat c - 55)
      else if 0x61 \<le> c \<and> c \<le> 0x66 then Some (unat c - 87)
      else None)"

text \<open>The character a one-letter escape stands for.\<close>

definition escapeChar :: "16 word \<Rightarrow> 16 word option" where
  "escapeChar c =
     (if c = 0x22 then Some 0x22
      else if c = 0x5C then Some 0x5C
      else if c = 0x2F then Some 0x2F
      else if c = 0x62 then Some 0x08
      else if c = 0x66 then Some 0x0C
      else if c = 0x6E then Some 0x0A
      else if c = 0x72 then Some 0x0D
      else if c = 0x74 then Some 0x09
      else None)"

text \<open>The characters of a string after its opening quote, up to the closing quote;
  \<open>acc\<close> holds the characters read so far, last first.\<close>

fun parseChars :: "jsstring \<Rightarrow> jsstring \<Rightarrow> (jsstring \<times> jsstring) option" where
  "parseChars [] acc = None"
| "parseChars (c # cs) acc =
     (if c = 0x22 then Some (rev acc, cs)
      else if c = 0x5C then
        (case cs of
           [] \<Rightarrow> None
         | e # es \<Rightarrow>
             if e = 0x75 then
               (case es of
                  h1 # h2 # h3 # h4 # rest \<Rightarrow>
                    (case (hexValue h1, hexValue h2, hexValue h3, hexValue h4) of
                       (Some a, Some b, Some c', Some d) \<Rightarrow>
                         parseChars rest (of_nat (((a * 16 + b) * 16 + c') * 16 + d) # acc)
                     | _ \<Rightarrow> None)
                | _ \<Rightarrow> None)
             else
               (case escapeChar e of
                  None \<Rightarrow> None
                | Some x \<Rightarrow> parseChars es (x # acc)))
      else if c < 0x20 then None
      else parseChars cs (c # acc))"

text \<open>The optional fraction and exponent of a number.\<close>

definition parseFraction :: "jsstring \<Rightarrow> (jsstring \<times> jsstring) option" where
  "parseFraction s =
     (case s of
        [] \<Rightarrow> Some ([], s)
      | c # cs \<Rightarrow>
          if c = 0x2E
          then (if takeWhile isDigit cs = [] then None
                else Some (takeWhile isDigit cs, dropWhile isDigit cs))
          else Some ([], s))"

definition parseExponent :: "jsstring \<Rightarrow> (int \<times> jsstring) option" where
  "parseExponent s =
     (case s of
        [] \<Rightarrow> Some (0, s)
      | c # cs \<Rightarrow>
          if c = 0x65 \<or> c = 0x45 then
            (let (negative, ds) =
                   (case cs of
                      [] \<Rightarrow> (False, cs)
                    | x # xs \<Rightarrow>
                        if x = 0x2D then (True, xs) else if x = 0x2B then (False, xs)
                        else (False, cs))
             in if takeWhile isDigit ds = [] then None
                else Some ((if negative then - 1 else 1) * int (digitsValue (takeWhile isDigit ds)),
                           dropWhile isDigit ds))
          else Some (0, s))"

definition parseNumber :: "jsstring \<Rightarrow> (json \<times> jsstring) option" where
  "parseNumber s =
     (let (negative, s1) =
            (case s of
               [] \<Rightarrow> (False, s)
             | c # cs \<Rightarrow> if c = 0x2D then (True, cs) else (False, s))
      in
      case s1 of
        [] \<Rightarrow> None
      | d # ds \<Rightarrow>
          if \<not> isDigit d then None
          else
            let (intDigits, s2) =
                  (if d = 0x30 then ([d], ds) else (takeWhile isDigit s1, dropWhile isDigit s1))
            in
            case parseFraction s2 of
              None \<Rightarrow> None
            | Some (fracDigits, s3) \<Rightarrow>
                (case parseExponent s3 of
                   None \<Rightarrow> None
                 | Some (ex, s4) \<Rightarrow>
                     Some (JNumber
                             ((if negative then - 1 else 1) * int (digitsValue (intDigits @ fracDigits)))
                             (ex - int (length fracDigits)),
                           s4)))"

lemma skipSpace_length_le: "length (skipSpace xs) \<le> length xs"
  by (simp add: skipSpace_def length_dropWhile_le)

lemma skipSpace_Cons_shorter:
  assumes "skipSpace xs = d # ds"
  shows "length ds < length xs \<and> length (skipSpace ds) < length xs"
proof -
  from assms have "Suc (length ds) = length (skipSpace xs)" by simp
  with skipSpace_length_le [of xs] have "length ds < length xs" by simp
  with skipSpace_length_le [of ds] show ?thesis by simp
qed

text \<open>
  A value, the elements of an array after its opening bracket, and the members of an
  object after its opening brace. Each returns what it read and the rest of the input. The
  tests \<open>length r < length s\<close> always hold (\<open>parseElements_unguarded\<close> and
  \<open>parseMembers_unguarded\<close> below): they are there to make the recursion visibly
  terminate.
\<close>

function (sequential) parseValue :: "jsstring \<Rightarrow> (json \<times> jsstring) option"
  and parseElements :: "jsstring \<Rightarrow> json list \<Rightarrow> (json list \<times> jsstring) option"
  and parseMembers ::
    "jsstring \<Rightarrow> (jsstring \<times> json) list \<Rightarrow> ((jsstring \<times> json) list \<times> jsstring) option"
where
  "parseValue [] = None"
| "parseValue (c # cs) =
     (if c = 0x7B then
        (case skipSpace cs of
           [] \<Rightarrow> None
         | d # ds \<Rightarrow>
             if d = 0x7D then Some (JObject [], ds)
             else (case parseMembers (d # ds) [] of
                     None \<Rightarrow> None
                   | Some (members, r) \<Rightarrow> Some (JObject members, r)))
      else if c = 0x5B then
        (case skipSpace cs of
           [] \<Rightarrow> None
         | d # ds \<Rightarrow>
             if d = 0x5D then Some (JArray [], ds)
             else (case parseElements (d # ds) [] of
                     None \<Rightarrow> None
                   | Some (elements, r) \<Rightarrow> Some (JArray elements, r)))
      else if c = 0x22 then
        (case parseChars cs [] of
           None \<Rightarrow> None
         | Some (s, r) \<Rightarrow> Some (JString s, r))
      else if c = 0x74 then
        (if take 3 cs = js ''rue'' then Some (JBool True, drop 3 cs) else None)
      else if c = 0x66 then
        (if take 4 cs = js ''alse'' then Some (JBool False, drop 4 cs) else None)
      else if c = 0x6E then
        (if take 3 cs = js ''ull'' then Some (JNull, drop 3 cs) else None)
      else if c = 0x2D \<or> isDigit c then parseNumber (c # cs)
      else None)"
| "parseElements s acc =
     (case parseValue s of
        None \<Rightarrow> None
      | Some (v, r) \<Rightarrow>
          if length r < length s then
            (case skipSpace r of
               [] \<Rightarrow> None
             | d # ds \<Rightarrow>
                 if d = 0x2C then parseElements (skipSpace ds) (v # acc)
                 else if d = 0x5D then Some (rev (v # acc), ds)
                 else None)
          else None)"
| "parseMembers s acc =
     (case s of
        [] \<Rightarrow> None
      | q # cs \<Rightarrow>
          if q = 0x22 then
            (case parseChars cs [] of
               None \<Rightarrow> None
             | Some (k, r) \<Rightarrow>
                 (case skipSpace r of
                    [] \<Rightarrow> None
                  | colon # r' \<Rightarrow>
                      if colon = 0x3A \<and> length (skipSpace r') < length s then
                        (case parseValue (skipSpace r') of
                           None \<Rightarrow> None
                         | Some (v, r'') \<Rightarrow>
                             if length r'' < length (skipSpace r') then
                               (case skipSpace r'' of
                                  [] \<Rightarrow> None
                                | d # ds \<Rightarrow>
                                    if d = 0x2C then parseMembers (skipSpace ds) ((k, v) # acc)
                                    else if d = 0x7D then Some (rev ((k, v) # acc), ds)
                                    else None)
                             else None)
                      else None))
          else None)"
  by pat_completeness auto
termination
  by (relation "measure (\<lambda>x. case x of
          Inl s \<Rightarrow> 2 * length s
        | Inr (Inl (s, acc)) \<Rightarrow> 2 * length s + 1
        | Inr (Inr (s, acc)) \<Rightarrow> 2 * length s + 1)")
     (auto dest!: skipSpace_Cons_shorter)

text \<open>
  What can leave the step as an exception: a SyntaxError of \<open>JSON.parse\<close>, a TypeError,
  or whatever the agent call rejected with.

  \<open>JSON.parse(text)\<close>: one value between optional white space, or a SyntaxError. Limits
  of the engine (stack depth, memory) are not modelled.
\<close>

datatype step_error = SyntaxError | TypeError | AgentRejected thrown

definition JSON_parse :: "jsstring \<Rightarrow> step_error + json" where
  "JSON_parse text' =
     (case parseValue (skipSpace text') of
        None \<Rightarrow> Inl SyntaxError
      | Some (v, r) \<Rightarrow> if skipSpace r = [] then Inr v else Inl SyntaxError)"

subsection \<open>Reading the parsed value\<close>

text \<open>
  \<open>v.key\<close> for a value that is not \<open>null\<close> and a key that no prototype defines
  (\<open>message\<close>, \<open>chat\<close>, \<open>id\<close>, \<open>text\<close>): the member of an object, \<open>undefined\<close> (\<open>None\<close>)
  for everything else. \<open>v?.key\<close> is \<open>undefined\<close> when \<open>v\<close> is \<open>undefined\<close> or \<open>null\<close>.
\<close>

definition getMember :: "(jsstring \<times> json) list \<Rightarrow> jsstring \<Rightarrow> json option" where
  "getMember members key = map_of (rev members) key"

definition getProperty :: "json \<Rightarrow> jsstring \<Rightarrow> json option" where
  "getProperty v key = (case v of JObject members \<Rightarrow> getMember members key | _ \<Rightarrow> None)"

definition optionalProperty :: "json option \<Rightarrow> jsstring \<Rightarrow> json option" where
  "optionalProperty v key =
     (case v of None \<Rightarrow> None | Some JNull \<Rightarrow> None | Some x \<Rightarrow> getProperty x key)"

text \<open>
  Truthiness. \<open>JSON.parse\<close> rounds a number to the nearest double, which is zero exactly
  when the magnitude of the decimal is at most \<open>2^-1075\<close>.
\<close>

definition roundsToZero :: "int \<Rightarrow> int \<Rightarrow> bool" where
  "roundsToZero m e \<longleftrightarrow> m = 0 \<or> (e < 0 \<and> \<bar>m\<bar> * 2 ^ 1075 \<le> 10 ^ nat (- e))"

fun truthy :: "json \<Rightarrow> bool" where
  "truthy JNull = False"
| "truthy (JBool b) = b"
| "truthy (JNumber m e) = (\<not> roundsToZero m e)"
| "truthy (JString s) = (s \<noteq> [])"
| "truthy (JArray vs) = True"
| "truthy (JObject members) = True"

fun joinComma :: "jsstring list \<Rightarrow> jsstring" where
  "joinComma [] = []"
| "joinComma [x] = x"
| "joinComma (x # y # rest) = x @ [0x2C] @ joinComma (y # rest)"

text \<open>
  \<open>v.toString()\<close> for a parsed value that is not \<open>null\<close>; \<open>None\<close> is a TypeError.
  \<open>numberToString\<close> stands for \<open>Number.prototype.toString\<close>. An array joins its elements
  with commas, \<open>null\<close> elements giving the empty string. An object gives
  \<open>"[object Object]"\<close>, unless it has a member named \<open>toString\<close>: that member is not a
  function, so calling it, or converting the object inside an array, is a TypeError.
\<close>

fun jsToString :: "(int \<Rightarrow> int \<Rightarrow> jsstring) \<Rightarrow> json \<Rightarrow> jsstring option" where
  "jsToString numberToString JNull = Some (js ''null'')"
| "jsToString numberToString (JBool b) = Some (if b then js ''true'' else js ''false'')"
| "jsToString numberToString (JNumber m e) = Some (numberToString m e)"
| "jsToString numberToString (JString s) = Some s"
| "jsToString numberToString (JArray vs) =
     (let parts = map (\<lambda>v. case v of JNull \<Rightarrow> Some [] | _ \<Rightarrow> jsToString numberToString v) vs
      in if None \<in> set parts then None else Some (joinComma (map the parts)))"
| "jsToString numberToString (JObject members) =
     (if getMember members (js ''toString'') \<noteq> None then None else Some (js ''[object Object]''))"

text \<open>
  Whether \<open>v.toString()\<close> returns: no object with a member named \<open>toString\<close> is reached,
  directly or through the elements of arrays.
\<close>

fun stringifiable :: "json \<Rightarrow> bool" where
  "stringifiable (JArray vs) = (\<forall>v \<in> set vs. stringifiable v)"
| "stringifiable (JObject members) = (getMember members (js ''toString'') = None)"
| "stringifiable v = True"

subsection \<open>useAgentStep: the execute function (lines 22-57)\<close>

text \<open>Line 30: \<open>messageData.message?.chat?.id?.toString() || "unknown"\<close>. Reading
  \<open>.message\<close> of \<open>null\<close> is a TypeError.\<close>

definition chatIdOf :: "(int \<Rightarrow> int \<Rightarrow> jsstring) \<Rightarrow> json \<Rightarrow> step_error + jsstring" where
  "chatIdOf numberToString messageData =
     (case messageData of
        JNull \<Rightarrow> Inl TypeError
      | _ \<Rightarrow>
          (case optionalProperty
                  (optionalProperty (getProperty messageData (js ''message'')) (js ''chat''))
                  (js ''id'') of
             None \<Rightarrow> Inr (js ''unknown'')
           | Some JNull \<Rightarrow> Inr (js ''unknown'')
           | Some idValue \<Rightarrow>
               (case jsToString numberToString idValue of
                  None \<Rightarrow> Inl TypeError
                | Some s \<Rightarrow> Inr (if s = [] then js ''unknown'' else s))))"

text \<open>Line 31: \<open>messageData.message?.text || ""\<close>, for a \<open>messageData\<close> that is not
  \<open>null\<close>. The result is the text when it is truthy, of whatever type it is.\<close>

definition messageTextOf :: "json \<Rightarrow> json" where
  "messageTextOf messageData =
     (case optionalProperty (getProperty messageData (js ''message'')) (js ''text'') of
        None \<Rightarrow> JString []
      | Some v \<Rightarrow> if truthy v then v else JString [])"

text \<open>
  Line 35: \<open>messageText.substring(0, 100)\<close>, an argument of \<open>logger?.info\<close> and so
  evaluated exactly when the step has a logger. Only a string has a \<open>substring\<close> method;
  for any other value the call is a TypeError.
\<close>

definition messageTextPreview :: "json \<Rightarrow> step_error + jsstring" where
  "messageTextPreview messageText =
     (case messageText of JString s \<Rightarrow> Inr (substring s 0 100) | _ \<Rightarrow> Inl TypeError)"

text \<open>
  Lines 29 to 36 of the step: the \<open>chatId\<close> and the \<open>messageText\<close>, or the exception that
  leaves the step (there is no try block around them). \<open>logger\<close> tells whether
  \<open>mastra?.getLogger()\<close> gave a logger.
\<close>

definition useAgentStep_parse ::
  "bool \<Rightarrow> (int \<Rightarrow> int \<Rightarrow> jsstring) \<Rightarrow> jsstring \<Rightarrow> step_error + (jsstring \<times> json)" where
  "useAgentStep_parse logger numberToString message' =
     (case JSON_parse message' of
        Inl e \<Rightarrow> Inl e
      | Inr messageData \<Rightarrow>
          (case chatIdOf numberToString messageData of
             Inl e \<Rightarrow> Inl e
           | Inr chatId' \<Rightarrow>
               let messageText = messageTextOf messageData in
               if logger then
                 (case messageTextPreview messageText of
                    Inl e \<Rightarrow> Inl e
                  | Inr preview \<Rightarrow> Inr (chatId', messageText))
               else Inr (chatId', messageText)))"

text \<open>
  \<open>imageGeneratorAgent.generate\<close> (lines 39-45) is an external call: given the thread and
  the content of the user message it resolves with a text or rejects. The step returns
  the response, the \<open>chatId\<close> and the \<open>messageText\<close> (lines 52-56); a rejection of the agent
  leaves the step as it is.
\<close>

type_synonym agent_service = "jsstring \<Rightarrow> json \<Rightarrow> thrown + jsstring"

definition useAgentStep_execute ::
  "bool \<Rightarrow> (int \<Rightarrow> int \<Rightarrow> jsstring) \<Rightarrow> agent_service \<Rightarrow> jsstring \<Rightarrow> jsstring
     \<Rightarrow> step_error + (jsstring \<times> jsstring \<times> json)" where
  "useAgentStep_execute logger numberToString agent message' threadId =
     (case useAgentStep_parse logger numberToString message' of
        Inl e \<Rightarrow> Inl e
      | Inr (chatId', messageText) \<Rightarrow>
          (case agent threadId messageText of
             Inl e \<Rightarrow> Inl (AgentRejected e)
           | Inr text' \<Rightarrow> Inr (text', chatId', messageText)))"

section \<open>Test doubles for the external services\<close>

text \<open>Services that answer every call the same way, and one whose second call fails.\<close>

definition textReplies :: "jsstring \<Rightarrow> text_service" where
  "textReplies t n request = Inr t"

definition textFails :: "thrown \<Rightarrow> text_service" where
  "textFails e n request = Inl e"

definition secondCallFails :: "jsstring \<Rightarrow> thrown \<Rightarrow> text_service" where
  "secondCallFails t e n request = (if n = 0 then Inr t else Inl e)"

definition fetchGives :: "fetch_outcome \<Rightarrow> http_service" where
  "fetchGives outcome url = outcome"

text \<open>A well-formed answer of the image service, and the result \<open>generateImage\<close> makes of
  it for the prompt \<open>"a cat"\<close> with the default size.\<close>

definition pngResponse :: http_response where
  "pngResponse =
     \<lparr> status = 200, statusText = js ''OK'', contentType = Some (js ''image/png''),
       body = Inr [0x89, 0x50, 0x4E, 0x47] \<rparr>"

definition catImage :: image_result where
  "catImage =
     \<lparr> success = True,
       message = [0x2705] @ js '' Successfully generated image using free AI service for: ''
                   @ dq @ js ''a cat'' @ dq,
       originalPrompt = js ''a cat'',
       error = None,
       imageBase64 = Some (js ''iVBORw==''),
       mimeType = Some (js ''image/png''),
       imageUrl =
         Some (js ''https://image.pollinations.ai/prompt/a%20cat?width=1024&height=1024&seed=random'') \<rparr>"

text \<open>The request URL for the prompt \<open>"a cat"\<close> with the default size, and an answer of the
  image service that reports an outage.\<close>

definition catUrl :: jsstring where
  "catUrl = js ''https://image.pollinations.ai/prompt/a%20cat?width=1024&height=1024&seed=random''"

definition unavailableResponse :: http_response where
  "unavailableResponse =
     \<lparr> status = 503, statusText = js ''Service Unavailable'',
       contentType = Some (js ''text/html''), body = Inr [] \<rparr>"

text \<open>A prompt of 501 code units: a space followed by 500 times the letter a.\<close>

definition paddedPrompt :: jsstring where
  "paddedPrompt = 0x20 # replicate 500 0x61"

text \<open>A rendering of numbers that is right for the integers a chat id is, an agent
  that always answers, and three envelopes: one without a text, one whose chat id is an
  array, one that is not JSON.\<close>

definition agentReplies :: "jsstring \<Rightarrow> agent_service" where
  "agentReplies t threadId content = Inr t"

definition listIdEnvelope :: jsstring where
  "listIdEnvelope = js ''{\"message\":{\"chat\":{\"id\":[1,2]},\"text\":\"a cat\"}}''"

definition integerToString :: "int \<Rightarrow> int \<Rightarrow> jsstring" where
  "integerToString m e = intToString (m * 10 ^ nat e)"

definition noTextEnvelope :: jsstring where
  "noTextEnvelope = js ''{\"message\":{\"chat\":{\"id\":42}}}''"

definition brokenEnvelope :: jsstring where
  "brokenEnvelope = js ''hello''"

section \<open>Properties\<close>

lemma js_Nil [simp]: "js [] = []"
  by (simp add: js_def)

lemma trim_Nil [simp]: "trim [] = []"
  by (simp add: trim_def)

lemma js_is_Nil [simp]: "js s = [] \<longleftrightarrow> s = []"
  by (simp add: js_def)

subsection \<open>Blank prompts\<close>

lemma enhancePrompt_blank:
  "trim p = [] \<Longrightarrow>
   enhancePrompt generateText p styleArg =
     ([], Inr (enhancePrompt_catch p (case styleArg of None \<Rightarrow> js ''realistic'' | Some s \<Rightarrow> s)
                 (newError (js ''Original prompt cannot be empty''))))"
  by (simp add: enhancePrompt_def enhancePrompt_try_def Let_def)

lemma generateImage_blank:
  "trim p = [] \<Longrightarrow>
   generateImage fetch p widthArg heightArg =
     ([], Inr (generateImage_catch p (newError (js ''Prompt cannot be empty''))))"
  by (simp add: generateImage_def generateImage_try_def Let_def)

lemma generateAsciiArt_blank:
  "trim p = [] \<Longrightarrow>
   generateAsciiArt generateText p =
     ([], Inr (generateAsciiArt_catch p (newError (js ''Prompt cannot be empty''))))"
  by (simp add: generateAsciiArt_def generateAsciiArt_try_def Let_def)

text \<open>
  Claim C1. For every prompt whose trimmed form is empty, each of the three stages
  (\<open>enhancePrompt\<close>, \<open>generateImage\<close>, \<open>generateAsciiArt\<close>) returns a result with
  \<open>success = false\<close>, and its log of external calls is empty, whatever the services
  would have answered.
\<close>

theorem blank_prompt_rejected_without_call:
  assumes "trim p = []"
  shows "(\<exists>r. enhancePrompt generateText p styleArg = ([], Inr r) \<and> \<not> success r)
       \<and> (\<exists>r. generateImage fetch p widthArg heightArg = ([], Inr r) \<and> \<not> success r)
       \<and> (\<exists>r. generateAsciiArt generateText' p = ([], Inr r) \<and> \<not> success r)"
  using assms
  by (simp add: enhancePrompt_blank generateImage_blank generateAsciiArt_blank
      enhancePrompt_catch_def generateImage_catch_def generateAsciiArt_catch_def)

theorem blank_prompt_rejected_without_call_witness:
  "trim [0x20, 0x0A] = []
   \<and> (\<exists>r. enhancePrompt (textReplies (js ''a cat'')) [0x20, 0x0A] None = ([], Inr r) \<and> \<not> success r)
   \<and> (\<exists>r. generateImage (fetchGives (Aborted [])) [0x20, 0x0A] None None = ([], Inr r) \<and> \<not> success r)
   \<and> (\<exists>r. generateAsciiArt (textReplies (js ''a cat'')) [0x20, 0x0A] = ([], Inr r) \<and> \<not> success r)"
proof -
  have blank: "trim [0x20, 0x0A] = []"
    by (simp add: trim_def isWhiteSpace_def)
  from blank_prompt_rejected_without_call [OF blank] blank show ?thesis
    by blast
qed

subsection \<open>The ASCII-art fallback is all or nothing\<close>

text \<open>
  Claim C2. If either of the two \<open>generateText\<close> calls of \<open>generateAsciiArt\<close> fails (the
  first one, or the second one after the first succeeded), the returned result has
  \<open>asciiArt\<close> and \<open>description\<close> both set to the fixed placeholders, \<open>success = false\<close>,
  and \<open>error\<close> records the text of the underlying error (of the validation error when the
  prompt is blank and no call is made at all).
\<close>

theorem ascii_art_failure_is_atomic:
  assumes "generateText 0 (artRequest p) = Inl e
         \<or> (\<exists>t. generateText 0 (artRequest p) = Inr t)
             \<and> generateText 1 (descriptionRequest p) = Inl e"
  shows "\<exists>r. snd (generateAsciiArt generateText p) = Inr r
           \<and> \<not> success r
           \<and> asciiArt r = fallbackArt
           \<and> description r = fallbackDescription p
           \<and> error r = Some (if trim p = [] then js ''Prompt cannot be empty'' else errorText e)"
proof (cases "trim p = []")
  case True
  then show ?thesis
    by (simp add: generateAsciiArt_blank generateAsciiArt_catch_def newError_def)
next
  case False
  then have p: "p \<noteq> []" by auto
  from assms show ?thesis
  proof
    assume "generateText 0 (artRequest p) = Inl e"
    with False p show ?thesis
      by (simp add: generateAsciiArt_def generateAsciiArt_try_def generateAsciiArt_catch_def Let_def)
  next
    assume "(\<exists>t. generateText 0 (artRequest p) = Inr t)
             \<and> generateText 1 (descriptionRequest p) = Inl e"
    then obtain t where "generateText 0 (artRequest p) = Inr t"
      and "generateText 1 (descriptionRequest p) = Inl e" by blast
    with False p show ?thesis
      by (simp add: generateAsciiArt_def generateAsciiArt_try_def generateAsciiArt_catch_def Let_def)
  qed
qed

theorem ascii_art_failure_is_atomic_witness:
  "secondCallFails (js ''(=o.o=)'') (JsValue (js ''quota'')) 0 (artRequest (js ''cat'')) = Inr (js ''(=o.o=)'')
   \<and> secondCallFails (js ''(=o.o=)'') (JsValue (js ''quota'')) 1 (descriptionRequest (js ''cat''))
       = Inl (JsValue (js ''quota''))
   \<and> (\<exists>r. snd (generateAsciiArt (secondCallFails (js ''(=o.o=)'') (JsValue (js ''quota''))) (js ''cat''))
             = Inr r
          \<and> \<not> success r
          \<and> asciiArt r = fallbackArt
          \<and> description r = fallbackDescription (js ''cat'')
          \<and> error r = Some (js ''quota''))"
proof -
  have first: "secondCallFails (js ''(=o.o=)'') (JsValue (js ''quota'')) 0 (artRequest (js ''cat''))
      = Inr (js ''(=o.o=)'')"
    by (simp add: secondCallFails_def)
  have second: "secondCallFails (js ''(=o.o=)'') (JsValue (js ''quota'')) 1 (descriptionRequest (js ''cat''))
      = Inl (JsValue (js ''quota''))"
    by (simp add: secondCallFails_def)
  have nonblank: "trim (js ''cat'') \<noteq> []"
    by (simp add: js_def trim_def isWhiteSpace_def)
  from first second have hyp:
    "secondCallFails (js ''(=o.o=)'') (JsValue (js ''quota'')) 0 (artRequest (js ''cat''))
       = Inl (JsValue (js ''quota''))
     \<or> (\<exists>t. secondCallFails (js ''(=o.o=)'') (JsValue (js ''quota'')) 0 (artRequest (js ''cat'')) = Inr t)
         \<and> secondCallFails (js ''(=o.o=)'') (JsValue (js ''quota'')) 1 (descriptionRequest (js ''cat''))
             = Inl (JsValue (js ''quota''))"
    by blast
  from ascii_art_failure_is_atomic [OF hyp] nonblank first second show ?thesis
    by simp
qed

subsection \<open>A successful synthesis carries an image\<close>

lemma generateImage_try_Inr:
  assumes "generateImage_try fetch p w h = (calls, q, Inr r)"
  shows "success r \<and> error r = None \<and> message r \<noteq> []
       \<and> (\<exists>b m. imageBase64 r = Some b \<and> mimeType r = Some m \<and> startsWith m (js ''image/''))"
  using assms unfolding generateImage_try_def Let_def
  by (simp split: if_splits option.splits fetch_outcome.splits sum.splits) auto

lemma generateImage_snd:
  "snd (generateImage fetch p widthArg heightArg) =
     (case generateImage_try fetch p (case widthArg of None \<Rightarrow> 1024 | Some w \<Rightarrow> w)
             (case heightArg of None \<Rightarrow> 1024 | Some h \<Rightarrow> h) of
        (calls, q, Inr r) \<Rightarrow> Inr r
      | (calls, q, Inl e) \<Rightarrow> Inr (generateImage_catch q e))"
  by (simp add: generateImage_def Let_def split: prod.splits sum.splits)

text \<open>
  Claim C4. Whatever the input and the answer of the image service, if \<open>generateImage\<close>
  returns \<open>success = true\<close> then \<open>imageBase64\<close> and \<open>mimeType\<close> are both present
  (not \<open>null\<close>) and \<open>mimeType\<close> starts with \<open>"image/"\<close>.
\<close>

theorem image_success_has_image_and_mime_type:
  assumes "snd (generateImage fetch p widthArg heightArg) = Inr r" and "success r"
  shows "\<exists>b m. imageBase64 r = Some b \<and> mimeType r = Some m \<and> startsWith m (js ''image/'')"
proof -
  obtain calls q res where t: "generateImage_try fetch p (case widthArg of None \<Rightarrow> 1024 | Some w \<Rightarrow> w)
             (case heightArg of None \<Rightarrow> 1024 | Some h \<Rightarrow> h) = (calls, q, res)"
    by (cases "generateImage_try fetch p (case widthArg of None \<Rightarrow> 1024 | Some w \<Rightarrow> w)
             (case heightArg of None \<Rightarrow> 1024 | Some h \<Rightarrow> h)") auto
  show ?thesis
  proof (cases res)
    case (Inl e)
    with t assms show ?thesis
      by (simp add: generateImage_snd generateImage_catch_def) auto
  next
    case (Inr r')
    with t assms have "r' = r" by (simp add: generateImage_snd)
    with t Inr generateImage_try_Inr [of fetch p _ _ calls q r] show ?thesis by simp
  qed
qed

lemma encode_a_cat: "encodeURIComponent (trim (js ''a cat'')) = Some (js ''a%20cat'')"
  by (simp add: js_def trim_def isWhiteSpace_def isUnescaped_def isTrailSurrogate_def
      isLeadSurrogate_def percentEncode_def utf8_def percentByte_def hexDigit_def)

lemma generateImage_a_cat:
  "generateImage (fetchGives (Responded pngResponse)) (js ''a cat'') None None =
     ([Fetch (js ''https://image.pollinations.ai/prompt/a%20cat?width=1024&height=1024&seed=random'')],
      Inr catImage)"
  by (simp add: generateImage_def generateImage_try_def Let_def encode_a_cat fetchGives_def
        pngResponse_def ok_def startsWith_def requestUrl_def intToString_def clampSize_def
        base64Char_def catImage_def)
     (simp add: js_def decimal.simps digitChar_def trim_def isWhiteSpace_def)

theorem image_success_has_image_and_mime_type_witness:
  "snd (generateImage (fetchGives (Responded pngResponse)) (js ''a cat'') None None) = Inr catImage
   \<and> success catImage
   \<and> (\<exists>b m. imageBase64 catImage = Some b \<and> mimeType catImage = Some m
              \<and> startsWith m (js ''image/''))"
proof -
  have returned:
    "snd (generateImage (fetchGives (Responded pngResponse)) (js ''a cat'') None None) = Inr catImage"
    by (simp add: generateImage_a_cat)
  have succeeded: "success catImage"
    by (simp add: catImage_def)
  from image_success_has_image_and_mime_type [OF returned succeeded] returned succeeded
  show ?thesis by blast
qed

subsection \<open>No stage throws\<close>

lemma enhancePrompt_returns:
  "\<exists>r. snd (enhancePrompt generateText p styleArg) = Inr r
       \<and> message r \<noteq> [] \<and> success r = (error r = None)"
  by (simp add: enhancePrompt_def enhancePrompt_try_def enhancePrompt_catch_def Let_def
      split: sum.splits)

lemma generateImage_returns:
  "\<exists>r. snd (generateImage fetch p widthArg heightArg) = Inr r
       \<and> message r \<noteq> [] \<and> success r = (error r = None)"
proof -
  obtain calls q res where t: "generateImage_try fetch p (case widthArg of None \<Rightarrow> 1024 | Some w \<Rightarrow> w)
             (case heightArg of None \<Rightarrow> 1024 | Some h \<Rightarrow> h) = (calls, q, res)"
    by (cases "generateImage_try fetch p (case widthArg of None \<Rightarrow> 1024 | Some w \<Rightarrow> w)
             (case heightArg of None \<Rightarrow> 1024 | Some h \<Rightarrow> h)") auto
  show ?thesis
  proof (cases res)
    case (Inl e)
    with t show ?thesis
      by (simp add: generateImage_snd generateImage_catch_def)
  next
    case (Inr r)
    with t generateImage_try_Inr [of fetch p _ _ calls q r] show ?thesis
      by (simp add: generateImage_snd)
  qed
qed

lemma generateAsciiArt_returns:
  "\<exists>r. snd (generateAsciiArt generateText p) = Inr r
       \<and> message r \<noteq> [] \<and> success r = (error r = None)"
  by (simp add: generateAsciiArt_def generateAsciiArt_try_def generateAsciiArt_catch_def Let_def
      split: sum.splits)

text \<open>
  Claim C5. Whatever the input and whatever the external calls end in (a value, a
  rejection, a bad status, a bad content type, an abort by the timer), none of the three
  stages throws to its caller: each returns (\<open>Inr\<close>) a result object with its \<open>success\<close>
  flag and a non-empty \<open>message\<close>, and \<open>error\<close> is present exactly when \<open>success\<close> is false.
\<close>

theorem stages_return_typed_results:
  "(\<exists>r. snd (enhancePrompt generateText p styleArg) = Inr r
        \<and> message r \<noteq> [] \<and> success r = (error r = None))
 \<and> (\<exists>r. snd (generateImage fetch q widthArg heightArg) = Inr r
        \<and> message r \<noteq> [] \<and> success r = (error r = None))
 \<and> (\<exists>r. snd (generateAsciiArt generateText' q') = Inr r
        \<and> message r \<noteq> [] \<and> success r = (error r = None))"
  using enhancePrompt_returns generateImage_returns generateAsciiArt_returns
  by blast

theorem stages_return_typed_results_witness:
  "(\<exists>r. snd (enhancePrompt (textFails (JsValue (js ''offline''))) (js ''a cat'') None) = Inr r
        \<and> message r \<noteq> [] \<and> success r = (error r = None))
 \<and> (\<exists>r. snd (generateImage (fetchGives (Aborted (js ''This operation was aborted'')))
               (js ''a cat'') None None) = Inr r
        \<and> message r \<noteq> [] \<and> success r = (error r = None))
 \<and> (\<exists>r. snd (generateAsciiArt (secondCallFails (js ''(=o.o=)'') (JsValue (js ''quota'')))
               (js ''a cat'')) = Inr r
        \<and> message r \<noteq> [] \<and> success r = (error r = None))"
  by (rule stages_return_typed_results)

subsection \<open>Failures of the image service\<close>

lemma trim_nonempty: "trim p \<noteq> [] \<Longrightarrow> p \<noteq> []"
  by auto

lemma generateImage_fst:
  "fst (generateImage fetch p widthArg heightArg) =
     fst (generateImage_try fetch p (case widthArg of None \<Rightarrow> 1024 | Some w \<Rightarrow> w)
            (case heightArg of None \<Rightarrow> 1024 | Some h \<Rightarrow> h))"
  by (simp add: generateImage_def Let_def split: prod.splits sum.splits)

lemma generateImage_try_issued:
  assumes "fst (generateImage_try fetch p w h) = [Fetch url]"
  shows "trim p \<noteq> []
       \<and> (\<exists>enc. encodeURIComponent (trim (if length p > 500 then substring p 0 500 else p)) = Some enc
                \<and> url = requestUrl enc (clampSize w) (clampSize h))"
  using assms unfolding generateImage_try_def Let_def
  by (simp split: if_splits option.splits fetch_outcome.splits sum.splits)

lemma generateImage_try_aborted:
  assumes "fst (generateImage_try fetch p w h) = [Fetch url]" and "fetch url = Aborted m"
  shows "snd (snd (generateImage_try fetch p w h)) = Inl (JsError (js ''AbortError'') m)"
proof -
  from generateImage_try_issued [OF assms(1)] obtain enc where
    "trim p \<noteq> []" "p \<noteq> []"
    "encodeURIComponent (trim (if length p > 500 then substring p 0 500 else p)) = Some enc"
    "url = requestUrl enc (clampSize w) (clampSize h)"
    by (auto dest: trim_nonempty)
  with assms(2) show ?thesis
    unfolding generateImage_try_def Let_def by simp
qed

lemma generateImage_try_bad_status:
  assumes "fst (generateImage_try fetch p w h) = [Fetch url]"
    and "fetch url = Responded response" and "\<not> ok response"
  shows "snd (snd (generateImage_try fetch p w h)) =
           Inl (newError (js ''Pollinations API failed: '' @ decimal (status response)
                            @ js '' '' @ statusText response))"
proof -
  from generateImage_try_issued [OF assms(1)] obtain enc where
    "trim p \<noteq> []" "p \<noteq> []"
    "encodeURIComponent (trim (if length p > 500 then substring p 0 500 else p)) = Some enc"
    "url = requestUrl enc (clampSize w) (clampSize h)"
    by (auto dest: trim_nonempty)
  with assms(2,3) show ?thesis
    unfolding generateImage_try_def Let_def by simp
qed

lemma generateImage_try_no_content_type:
  assumes "fst (generateImage_try fetch p w h) = [Fetch url]"
    and "fetch url = Responded response" and "ok response" and "contentType response = None"
  shows "snd (snd (generateImage_try fetch p w h)) =
           Inl (newError (js ''Invalid content type received: null''))"
proof -
  from generateImage_try_issued [OF assms(1)] obtain enc where
    "trim p \<noteq> []" "p \<noteq> []"
    "encodeURIComponent (trim (if length p > 500 then substring p 0 500 else p)) = Some enc"
    "url = requestUrl enc (clampSize w) (clampSize h)"
    by (auto dest: trim_nonempty)
  with assms(2,3,4) show ?thesis
    unfolding generateImage_try_def Let_def by simp
qed

lemma generateImage_try_bad_content_type:
  assumes "fst (generateImage_try fetch p w h) = [Fetch url]"
    and "fetch url = Responded response" and "ok response"
    and "contentType response = Some ct" and "\<not> startsWith ct (js ''image/'')"
  shows "snd (snd (generateImage_try fetch p w h)) =
           Inl (newError (js ''Invalid content type received: '' @ ct))"
proof -
  from generateImage_try_issued [OF assms(1)] obtain enc where
    "trim p \<noteq> []" "p \<noteq> []"
    "encodeURIComponent (trim (if length p > 500 then substring p 0 500 else p)) = Some enc"
    "url = requestUrl enc (clampSize w) (clampSize h)"
    by (auto dest: trim_nonempty)
  with assms(2,3,4,5) show ?thesis
    unfolding generateImage_try_def Let_def by simp
qed

lemma generateImage_caught:
  assumes "snd (snd (generateImage_try fetch p (case widthArg of None \<Rightarrow> 1024 | Some w \<Rightarrow> w)
             (case heightArg of None \<Rightarrow> 1024 | Some h \<Rightarrow> h))) = Inl e"
  shows "\<exists>r. snd (generateImage fetch p widthArg heightArg) = Inr r
           \<and> \<not> success r \<and> imageBase64 r = None \<and> mimeType r = None
           \<and> error r = Some (errorText e)"
  using assms
  by (cases "generateImage_try fetch p (case widthArg of None \<Rightarrow> 1024 | Some w \<Rightarrow> w)
             (case heightArg of None \<Rightarrow> 1024 | Some h \<Rightarrow> h)")
     (simp add: generateImage_snd generateImage_catch_def)

text \<open>
  Claim C7. For every synthesis request that reached the image service (the call log is
  \<open>[Fetch url]\<close>): if the response has a non-success status, or its declared content type
  is missing or does not begin with \<open>"image/"\<close>, or the 30-second timer fired and aborted
  the call in flight, then \<open>generateImage\<close> returns \<open>success = false\<close> without image data,
  and \<open>error\<close> holds the specific reason: the status and status text, the offending
  content type, or the message of the abort error.
\<close>

theorem image_service_failures_are_reported:
  assumes "fst (generateImage fetch p widthArg heightArg) = [Fetch url]"
    and "fetch url = Aborted m
       \<or> (\<exists>response. fetch url = Responded response
             \<and> (\<not> ok response \<or> contentType response = None
                 \<or> (\<exists>ct. contentType response = Some ct \<and> \<not> startsWith ct (js ''image/''))))"
  shows "\<exists>r. snd (generateImage fetch p widthArg heightArg) = Inr r
           \<and> \<not> success r \<and> imageBase64 r = None \<and> mimeType r = None
           \<and> error r =
               Some (case fetch url of
                       Aborted m' \<Rightarrow> m'
                     | Responded response \<Rightarrow>
                         if \<not> ok response
                         then js ''Pollinations API failed: '' @ decimal (status response)
                                @ js '' '' @ statusText response
                         else (case contentType response of
                                 None \<Rightarrow> js ''Invalid content type received: null''
                               | Some ct \<Rightarrow> js ''Invalid content type received: '' @ ct)
                     | Rejected e \<Rightarrow> errorText e)"
proof -
  let ?w = "case widthArg of None \<Rightarrow> 1024 | Some w \<Rightarrow> w"
  let ?h = "case heightArg of None \<Rightarrow> 1024 | Some h \<Rightarrow> h"
  from assms(1) have issued: "fst (generateImage_try fetch p ?w ?h) = [Fetch url]"
    by (simp add: generateImage_fst)
  from assms(2) show ?thesis
  proof
    assume aborted: "fetch url = Aborted m"
    from generateImage_caught [OF generateImage_try_aborted [OF issued aborted]] aborted
    show ?thesis by simp
  next
    assume "\<exists>response. fetch url = Responded response
             \<and> (\<not> ok response \<or> contentType response = None
                 \<or> (\<exists>ct. contentType response = Some ct \<and> \<not> startsWith ct (js ''image/'')))"
    then obtain response where responded: "fetch url = Responded response"
      and bad: "\<not> ok response \<or> contentType response = None
                 \<or> (\<exists>ct. contentType response = Some ct \<and> \<not> startsWith ct (js ''image/''))"
      by blast
    show ?thesis
    proof (cases "ok response")
      case False
      from generateImage_caught [OF generateImage_try_bad_status [OF issued responded False]]
        responded False
      show ?thesis by (simp add: newError_def)
    next
      case True
      show ?thesis
      proof (cases "contentType response")
        case None
        from generateImage_caught
          [OF generateImage_try_no_content_type [OF issued responded True None]]
          responded True None
        show ?thesis by (simp add: newError_def)
      next
        case (Some ct)
        with bad True have "\<not> startsWith ct (js ''image/'')" by simp
        from generateImage_caught
          [OF generateImage_try_bad_content_type [OF issued responded True Some this]]
          responded True Some
        show ?thesis by (simp add: newError_def)
      qed
    qed
  qed
qed

lemma generateImage_try_calls:
  assumes "trim p \<noteq> []"
    and "encodeURIComponent (trim (if length p > 500 then substring p 0 500 else p)) = Some enc"
  shows "fst (generateImage_try fetch p w h) = [Fetch (requestUrl enc (clampSize w) (clampSize h))]"
proof -
  from assms(1) have "p \<noteq> []" by auto
  with assms show ?thesis
    unfolding generateImage_try_def Let_def
    by (simp split: fetch_outcome.splits option.splits sum.splits)
qed

lemma trim_a_cat: "trim (js ''a cat'') = js ''a cat''"
  by (simp add: js_def trim_def isWhiteSpace_def)

lemma a_cat_url: "requestUrl (js ''a%20cat'') (clampSize 1024) (clampSize 1024) = catUrl"
  by (simp add: requestUrl_def intToString_def clampSize_def catUrl_def js_def decimal.simps
      digitChar_def)

lemma generateImage_a_cat_calls:
  "fst (generateImage fetch (js ''a cat'') None None) = [Fetch catUrl]"
proof -
  have "trim (js ''a cat'') \<noteq> []"
    by (simp add: trim_a_cat)
  moreover have "encodeURIComponent
      (trim (if length (js ''a cat'') > 500 then substring (js ''a cat'') 0 500 else js ''a cat''))
      = Some (js ''a%20cat'')"
    using encode_a_cat by (simp add: js_def)
  ultimately show ?thesis
    using generateImage_try_calls [of "js ''a cat''" "js ''a%20cat''" fetch 1024 1024]
    by (simp add: generateImage_fst a_cat_url)
qed

theorem image_service_failures_are_reported_witness:
  "fst (generateImage (fetchGives (Responded unavailableResponse)) (js ''a cat'') None None)
     = [Fetch catUrl]
   \<and> fetchGives (Responded unavailableResponse) catUrl = Responded unavailableResponse
   \<and> \<not> ok unavailableResponse
   \<and> (\<exists>r. snd (generateImage (fetchGives (Responded unavailableResponse)) (js ''a cat'') None None)
             = Inr r
          \<and> \<not> success r \<and> imageBase64 r = None \<and> mimeType r = None
          \<and> error r = Some (js ''Pollinations API failed: 503 Service Unavailable''))
   \<and> fst (generateImage (fetchGives (Aborted (js ''This operation was aborted''))) (js ''a cat'')
            None None) = [Fetch catUrl]
   \<and> fetchGives (Aborted (js ''This operation was aborted'')) catUrl
       = Aborted (js ''This operation was aborted'')
   \<and> (\<exists>r. snd (generateImage (fetchGives (Aborted (js ''This operation was aborted'')))
                  (js ''a cat'') None None) = Inr r
          \<and> \<not> success r \<and> imageBase64 r = None \<and> mimeType r = None
          \<and> error r = Some (js ''This operation was aborted''))"
proof -
  have responded:
    "fetchGives (Responded unavailableResponse) catUrl = Responded unavailableResponse"
    by (simp add: fetchGives_def)
  have bad: "\<not> ok unavailableResponse"
    by (simp add: ok_def unavailableResponse_def)
  have reason: "js ''Pollinations API failed: '' @ decimal (status unavailableResponse)
      @ js '' '' @ statusText unavailableResponse
      = js ''Pollinations API failed: 503 Service Unavailable''"
    by (simp add: unavailableResponse_def js_def decimal.simps digitChar_def)
  have aborted: "fetchGives (Aborted (js ''This operation was aborted'')) catUrl
      = Aborted (js ''This operation was aborted'')"
    by (simp add: fetchGives_def)
  from responded bad have hyp1:
    "fetchGives (Responded unavailableResponse) catUrl = Aborted []
     \<or> (\<exists>response. fetchGives (Responded unavailableResponse) catUrl = Responded response
           \<and> (\<not> ok response \<or> contentType response = None
               \<or> (\<exists>ct. contentType response = Some ct \<and> \<not> startsWith ct (js ''image/''))))"
    by blast
  from aborted have hyp2:
    "fetchGives (Aborted (js ''This operation was aborted'')) catUrl
       = Aborted (js ''This operation was aborted'')
     \<or> (\<exists>response. fetchGives (Aborted (js ''This operation was aborted'')) catUrl
             = Responded response
           \<and> (\<not> ok response \<or> contentType response = None
               \<or> (\<exists>ct. contentType response = Some ct \<and> \<not> startsWith ct (js ''image/''))))"
    by blast
  from image_service_failures_are_reported
      [of "fetchGives (Responded unavailableResponse)" "js ''a cat''" None None catUrl "[]",
       OF generateImage_a_cat_calls hyp1]
    image_service_failures_are_reported
      [of "fetchGives (Aborted (js ''This operation was aborted''))" "js ''a cat''" None None
          catUrl "js ''This operation was aborted''",
       OF generateImage_a_cat_calls hyp2]
    responded bad reason aborted generateImage_a_cat_calls
  show ?thesis by simp
qed

subsection \<open>Clamped dimensions\<close>

lemma clampSize_bounds: "256 \<le> clampSize x \<and> clampSize x \<le> 1024"
  by (simp add: clampSize_def)

lemma clampSize_mono: "a \<le> b \<Longrightarrow> clampSize a \<le> clampSize b"
  by (simp add: clampSize_def)

text \<open>
  Claim C8. For all integer \<open>width\<close> and \<open>height\<close> given to \<open>generateImage\<close>, the
  dimensions written into the URL of the outbound request are the clamped ones, they lie
  between 256 and 1024, and the clamping function is monotone.
\<close>

theorem image_dimensions_are_clamped:
  assumes "fst (generateImage fetch p (Some w) (Some h)) = [Fetch url]"
  shows "(\<exists>enc. url = js ''https://image.pollinations.ai/prompt/'' @ enc
                    @ js ''?width='' @ intToString (clampSize w)
                    @ js ''&height='' @ intToString (clampSize h) @ js ''&seed=random'')
       \<and> 256 \<le> clampSize w \<and> clampSize w \<le> 1024
       \<and> 256 \<le> clampSize h \<and> clampSize h \<le> 1024
       \<and> (\<forall>a b. a \<le> b \<longrightarrow> clampSize a \<le> clampSize b)"
proof -
  from assms have "fst (generateImage_try fetch p w h) = [Fetch url]"
    by (simp add: generateImage_fst)
  from generateImage_try_issued [OF this] obtain enc where
    "url = requestUrl enc (clampSize w) (clampSize h)" by blast
  then have "\<exists>enc. url = js ''https://image.pollinations.ai/prompt/'' @ enc
                    @ js ''?width='' @ intToString (clampSize w)
                    @ js ''&height='' @ intToString (clampSize h) @ js ''&seed=random''"
    by (auto simp add: requestUrl_def)
  with clampSize_bounds [of w] clampSize_bounds [of h] clampSize_mono show ?thesis
    by blast
qed

theorem image_dimensions_are_clamped_witness:
  "fst (generateImage (fetchGives (Responded pngResponse)) (js ''a cat'') (Some 5000) (Some (- 3)))
     = [Fetch (js ''https://image.pollinations.ai/prompt/a%20cat?width=1024&height=256&seed=random'')]
   \<and> clampSize 5000 = 1024 \<and> clampSize (- 3) = 256
   \<and> (\<exists>enc. js ''https://image.pollinations.ai/prompt/a%20cat?width=1024&height=256&seed=random''
               = js ''https://image.pollinations.ai/prompt/'' @ enc
                    @ js ''?width='' @ intToString (clampSize 5000)
                    @ js ''&height='' @ intToString (clampSize (- 3)) @ js ''&seed=random'')
   \<and> (5000::int) \<le> 6000 \<and> clampSize 5000 \<le> clampSize 6000"
proof -
  have "trim (js ''a cat'') \<noteq> []"
    by (simp add: trim_a_cat)
  moreover have "encodeURIComponent
      (trim (if length (js ''a cat'') > 500 then substring (js ''a cat'') 0 500 else js ''a cat''))
      = Some (js ''a%20cat'')"
    using encode_a_cat by (simp add: js_def)
  moreover have "requestUrl (js ''a%20cat'') (clampSize 5000) (clampSize (- 3))
      = js ''https://image.pollinations.ai/prompt/a%20cat?width=1024&height=256&seed=random''"
    by (simp add: requestUrl_def intToString_def clampSize_def js_def decimal.simps digitChar_def)
  ultimately have issued:
    "fst (generateImage (fetchGives (Responded pngResponse)) (js ''a cat'') (Some 5000) (Some (- 3)))
       = [Fetch (js ''https://image.pollinations.ai/prompt/a%20cat?width=1024&height=256&seed=random'')]"
    using generateImage_try_calls [of "js ''a cat''" "js ''a%20cat''"
        "fetchGives (Responded pngResponse)" 5000 "- 3"]
    by (simp add: generateImage_fst)
  have clamped: "clampSize 5000 = 1024 \<and> clampSize (- 3) = 256"
    by (simp add: clampSize_def)
  note clamps = image_dimensions_are_clamped [OF issued]
  from clamps have "clampSize 5000 \<le> clampSize 6000"
    by simp
  with clamps issued clamped show ?thesis
    by simp
qed

subsection \<open>The enhanced prompt\<close>

lemma fallbackPrompt_nonempty: "fallbackPrompt p sty \<noteq> []"
  by (simp add: fallbackPrompt_def)

text \<open>
  Claim C3 as stated fails: when \<open>generateText\<close> resolves with a whitespace-only text, the
  check of line 26 has passed, nothing throws, and \<open>enhancePrompt\<close> returns
  \<open>success = true\<close> with the empty string as \<open>enhancedPrompt\<close>.
\<close>

theorem enhanced_prompt_nonempty_counterexample:
  "snd (enhancePrompt (textReplies [0x20, 0x0A]) (js ''a cat'') None) =
     Inr \<lparr> success = True,
           message = js ''Successfully enhanced prompt using Gemini AI'',
           originalPrompt = js ''a cat'',
           error = None,
           enhancedPrompt = [],
           style = js ''realistic'' \<rparr>"
  by (simp add: enhancePrompt_def enhancePrompt_try_def Let_def textReplies_def)
     (simp add: js_def trim_def isWhiteSpace_def)

text \<open>
  Claim C3, amended. When the prompt is blank or the external call fails (throws),
  \<open>enhancePrompt\<close> returns \<open>success = false\<close>, \<open>error\<close> holding the text of the error, and
  \<open>enhancedPrompt\<close> equal to the template
  \<open>"{originalPrompt}, high quality, detailed, {style} style, professional photography"\<close>,
  which is never empty. When the external call resolves with a text, it returns
  \<open>success = true\<close> and \<open>enhancedPrompt\<close> is that text trimmed (so it is empty exactly
  when the text is empty or whitespace-only).
\<close>

theorem enhanced_prompt_fallback_or_trimmed_text:
  assumes "sty = (case styleArg of None \<Rightarrow> js ''realistic'' | Some s \<Rightarrow> s)"
  shows "\<exists>r. snd (enhancePrompt generateText p styleArg) = Inr r
     \<and> (trim p = [] \<longrightarrow>
          \<not> success r \<and> error r = Some (js ''Original prompt cannot be empty'')
          \<and> enhancedPrompt r = p @ js '', high quality, detailed, '' @ sty
                                   @ js '' style, professional photography''
          \<and> enhancedPrompt r \<noteq> [])
     \<and> (\<forall>e. trim p \<noteq> [] \<and> generateText 0 (enhanceRequest p sty) = Inl e \<longrightarrow>
          \<not> success r \<and> error r = Some (errorText e)
          \<and> enhancedPrompt r = p @ js '', high quality, detailed, '' @ sty
                                   @ js '' style, professional photography''
          \<and> enhancedPrompt r \<noteq> [])
     \<and> (\<forall>t. trim p \<noteq> [] \<and> generateText 0 (enhanceRequest p sty) = Inr t \<longrightarrow>
          success r \<and> error r = None \<and> enhancedPrompt r = trim t)"
proof (cases "trim p = []")
  case True
  with assms show ?thesis
    by (simp add: enhancePrompt_blank enhancePrompt_catch_def fallbackPrompt_def newError_def)
next
  case False
  then have "p \<noteq> []" by auto
  with False assms show ?thesis
    by (cases "generateText 0 (enhanceRequest p sty)")
       (simp_all add: enhancePrompt_def enhancePrompt_try_def enhancePrompt_catch_def
          fallbackPrompt_def Let_def)
qed

theorem enhanced_prompt_fallback_or_trimmed_text_witness:
  "js ''realistic'' = (case None of None \<Rightarrow> js ''realistic'' | Some s \<Rightarrow> s)
   \<and> trim (js ''a cat'') \<noteq> []
   \<and> textFails (JsValue (js ''offline'')) 0 (enhanceRequest (js ''a cat'') (js ''realistic''))
       = Inl (JsValue (js ''offline''))
   \<and> (\<exists>r. snd (enhancePrompt (textFails (JsValue (js ''offline''))) (js ''a cat'') None) = Inr r
          \<and> \<not> success r \<and> error r = Some (js ''offline'')
          \<and> enhancedPrompt r
              = js ''a cat, high quality, detailed, realistic style, professional photography'')"
proof -
  have sty: "js ''realistic'' = (case None of None \<Rightarrow> js ''realistic'' | Some s \<Rightarrow> s)"
    by simp
  have nonblank: "trim (js ''a cat'') \<noteq> []"
    by (simp add: trim_a_cat)
  have fails: "textFails (JsValue (js ''offline'')) 0 (enhanceRequest (js ''a cat'') (js ''realistic''))
       = Inl (JsValue (js ''offline''))"
    by (simp add: textFails_def)
  have template: "js ''a cat'' @ js '', high quality, detailed, '' @ js ''realistic''
      @ js '' style, professional photography''
      = js ''a cat, high quality, detailed, realistic style, professional photography''"
    by (simp add: js_def)
  from enhanced_prompt_fallback_or_trimmed_text
    [of "js ''realistic''" None "textFails (JsValue (js ''offline''))" "js ''a cat''", OF sty]
  obtain r where
    "snd (enhancePrompt (textFails (JsValue (js ''offline''))) (js ''a cat'') None) = Inr r"
    and "\<forall>e. trim (js ''a cat'') \<noteq> []
          \<and> textFails (JsValue (js ''offline'')) 0 (enhanceRequest (js ''a cat'') (js ''realistic''))
              = Inl e \<longrightarrow>
          \<not> success r \<and> error r = Some (errorText e)
          \<and> enhancedPrompt r = js ''a cat'' @ js '', high quality, detailed, '' @ js ''realistic''
                                   @ js '' style, professional photography''
          \<and> enhancedPrompt r \<noteq> []"
    by blast
  with nonblank fails template sty show ?thesis
    by auto
qed

subsection \<open>Delivery\<close>

text \<open>
  Claim C10 as stated fails: an \<open>imageData\<close> that is supplied but is the empty string is
  falsy, so \<open>hasImage\<close> is false.
\<close>

theorem telegram_has_image_counterexample:
  "sendTelegramMessage (js ''2026-01-01T00:00:00.000Z'') (js ''42'') (js ''hi'') (Some []) =
     Inr \<lparr> success = True,
           chatId = js ''42'',
           messagePreview = js ''hi'',
           sentAt = js ''2026-01-01T00:00:00.000Z'',
           hasImage = False \<rparr>"
  by (simp add: sendTelegramMessage_def sendTelegramMessage_try_def truthyString_def
      substring_def js_def)

text \<open>
  Claim C10, amended. For every input (\<open>chatId\<close>, \<open>message\<close>, optional \<open>imageData\<close>),
  \<open>sendTelegramMessage\<close> returns \<open>success = true\<close> for the same \<open>chatId\<close> and never throws;
  \<open>hasImage\<close> is true exactly when \<open>imageData\<close> was supplied and is not the empty string.
\<close>

theorem telegram_reply_always_succeeds:
  "\<exists>r. sendTelegramMessage now c m imageData = Inr r
       \<and> success r \<and> chatId r = c
       \<and> hasImage r = (\<exists>s. imageData = Some s \<and> s \<noteq> [])"
  by (cases imageData)
     (simp_all add: sendTelegramMessage_def sendTelegramMessage_try_def truthyString_def)

theorem telegram_reply_always_succeeds_witness:
  "\<exists>r. sendTelegramMessage (js ''2026-01-01T00:00:00.000Z'') (js ''42'') (js ''hi'')
          (Some (js ''iVBORw=='')) = Inr r
       \<and> success r \<and> chatId r = js ''42'' \<and> hasImage r"
proof -
  have "\<exists>s. Some (js ''iVBORw=='') = Some s \<and> s \<noteq> []"
    by simp
  with telegram_reply_always_succeeds
    [of "js ''2026-01-01T00:00:00.000Z''" "js ''42''" "js ''hi''" "Some (js ''iVBORw=='')"]
  show ?thesis by auto
qed

subsection \<open>Truncation of long prompts\<close>

lemma substring_from_0: "substring s 0 n = take n s"
  by (simp add: substring_def min_def)

lemma length_trim_le: "length (trim s) \<le> length s"
proof -
  have "length (trim s) = length (dropWhile isWhiteSpace (rev (dropWhile isWhiteSpace s)))"
    by (simp add: trim_def)
  also have "\<dots> \<le> length (rev (dropWhile isWhiteSpace s))"
    by (rule length_dropWhile_le)
  also have "\<dots> \<le> length s"
    by (simp add: length_dropWhile_le)
  finally show ?thesis .
qed

lemma trim_padded:
  assumes "isWhiteSpace b" and "\<not> isWhiteSpace a"
  shows "trim (b # replicate (Suc n) a) = replicate (Suc n) a"
proof -
  have "dropWhile isWhiteSpace (b # replicate (Suc n) a) = a # replicate n a"
    using assms by simp
  moreover have "rev (a # replicate n a) = a # replicate n a"
    by (simp add: replicate_append_same)
  ultimately show ?thesis
    using assms(2) by (simp add: trim_def replicate_append_same)
qed

lemma encode_unescaped_replicate:
  "isUnescaped a \<Longrightarrow> encodeURIComponent (replicate n a) = Some (replicate n a)"
  by (induction n) simp_all

lemma generateImage_try_prompt:
  assumes "trim p \<noteq> []"
  shows "fst (snd (generateImage_try fetch p w h)) = (if 500 < length p then substring p 0 500 else p)"
proof -
  from assms have "p \<noteq> []" by auto
  with assms show ?thesis
    unfolding generateImage_try_def Let_def
    by (simp split: option.splits fetch_outcome.splits sum.splits)
qed


lemma generateImage_try_Inr_prompt:
  assumes "generateImage_try fetch p w h = (calls, q, Inr r)"
  shows "originalPrompt r = q"
  using assms unfolding generateImage_try_def Let_def
  by (simp split: if_splits option.splits fetch_outcome.splits sum.splits) auto

lemma generateImage_originalPrompt:
  assumes "trim p \<noteq> []" and "snd (generateImage fetch p widthArg heightArg) = Inr r"
  shows "originalPrompt r = (if 500 < length p then substring p 0 500 else p)"
proof -
  let ?w = "case widthArg of None \<Rightarrow> 1024 | Some w \<Rightarrow> w"
  let ?h = "case heightArg of None \<Rightarrow> 1024 | Some h \<Rightarrow> h"
  obtain calls q res where t: "generateImage_try fetch p ?w ?h = (calls, q, res)"
    by (cases "generateImage_try fetch p ?w ?h") auto
  with generateImage_try_prompt [OF assms(1), of fetch ?w ?h]
  have q: "q = (if 500 < length p then substring p 0 500 else p)"
    by simp
  show ?thesis
  proof (cases res)
    case (Inl e)
    with t assms(2) q show ?thesis
      by (auto simp add: generateImage_snd generateImage_catch_def)
  next
    case (Inr r')
    with t assms(2) have "r' = r" by (simp add: generateImage_snd)
    with t Inr generateImage_try_Inr_prompt [of fetch p ?w ?h calls q r] q show ?thesis
      by simp
  qed
qed

lemma generateImage_unencodable:
  assumes "trim p \<noteq> []"
    and "encodeURIComponent (trim (if length p > 500 then substring p 0 500 else p)) = None"
  shows "\<exists>r. generateImage fetch p widthArg heightArg = ([], Inr r) \<and> \<not> success r"
proof -
  from assms(1) have "p \<noteq> []" by auto
  with assms show ?thesis
    unfolding generateImage_def generateImage_try_def generateImage_catch_def Let_def
    by simp
qed

text \<open>
  Claim C9 as stated fails: line 38 trims the truncated prompt before encoding it. For a
  space followed by 500 letters, the first 500 code units are the space and 499 letters,
  and the URL carries the 499 letters only, not the encoding \<open>%20aaa...\<close> of the first
  500 code units.
\<close>

theorem truncated_prompt_in_url_counterexample:
  "500 < length paddedPrompt
   \<and> fst (generateImage (fetchGives (Responded pngResponse)) paddedPrompt None None)
       = [Fetch (js ''https://image.pollinations.ai/prompt/'' @ replicate 499 0x61
                  @ js ''?width=1024&height=1024&seed=random'')]
   \<and> encodeURIComponent (take 500 paddedPrompt) = Some (js ''%20'' @ replicate 499 0x61)
   \<and> fst (generateImage (fetchGives (Responded pngResponse)) paddedPrompt None None)
       \<noteq> [Fetch (js ''https://image.pollinations.ai/prompt/'' @ js ''%20'' @ replicate 499 0x61
                  @ js ''?width=1024&height=1024&seed=random'')]"
proof -
  have ws: "isWhiteSpace 0x20" and letter: "\<not> isWhiteSpace 0x61" and plain: "isUnescaped 0x61"
    by (simp_all add: isWhiteSpace_def isUnescaped_def)
  have len: "500 < length paddedPrompt"
    by (simp add: paddedPrompt_def)
  have cut: "substring paddedPrompt 0 500 = 0x20 # replicate (Suc 498) 0x61"
    by (simp add: substring_from_0 paddedPrompt_def)
  have "trim paddedPrompt = replicate (Suc 499) 0x61"
    using trim_padded [OF ws letter, of 499] by (simp add: paddedPrompt_def)
  then have nonblank: "trim paddedPrompt \<noteq> []"
    by simp
  have trimmed: "trim (substring paddedPrompt 0 500) = replicate 499 0x61"
    using trim_padded [OF ws letter, of 498] by (simp add: cut)
  have enc: "encodeURIComponent
      (trim (if length paddedPrompt > 500 then substring paddedPrompt 0 500 else paddedPrompt))
      = Some (replicate 499 0x61)"
    using len trimmed encode_unescaped_replicate [OF plain, of 499] by simp
  have url: "requestUrl (replicate 499 0x61) (clampSize 1024) (clampSize 1024)
      = js ''https://image.pollinations.ai/prompt/'' @ replicate 499 0x61
          @ js ''?width=1024&height=1024&seed=random''"
    by (simp add: requestUrl_def intToString_def clampSize_def js_def decimal.simps digitChar_def)
  have calls: "fst (generateImage (fetchGives (Responded pngResponse)) paddedPrompt None None)
       = [Fetch (js ''https://image.pollinations.ai/prompt/'' @ replicate 499 0x61
                  @ js ''?width=1024&height=1024&seed=random'')]"
    using generateImage_try_calls [OF nonblank enc, of "fetchGives (Responded pngResponse)" 1024 1024]
    by (simp add: generateImage_fst url)
  have "take 500 paddedPrompt = 0x20 # replicate 499 0x61"
    by (simp add: paddedPrompt_def)
  then have first500: "encodeURIComponent (take 500 paddedPrompt) = Some (js ''%20'' @ replicate 499 0x61)"
    using encode_unescaped_replicate [OF plain, of 499]
    by (simp add: isUnescaped_def isTrailSurrogate_def isLeadSurrogate_def percentEncode_def
        utf8_def percentByte_def hexDigit_def js_def)
  have "replicate 499 (0x61 :: 16 word) = 0x61 # replicate 498 0x61"
    by (simp add: replicate_Suc [symmetric] del: replicate_Suc)
  then have differ: "fst (generateImage (fetchGives (Responded pngResponse)) paddedPrompt None None)
       \<noteq> [Fetch (js ''https://image.pollinations.ai/prompt/'' @ js ''%20'' @ replicate 499 0x61
                  @ js ''?width=1024&height=1024&seed=random'')]"
    by (simp add: calls js_def)
  from len calls first500 differ show ?thesis
    by blast
qed

text \<open>
  Claim C9, amended. For every prompt longer than 500 code units whose trimmed form is
  not empty, \<open>generateImage\<close> truncates the prompt to exactly its first 500 code units
  and reports that as \<open>originalPrompt\<close>; the request URL embeds the URL-encoding of the
  truncated prompt after trimming, which has at most 500 code units; when that cannot be
  encoded, no request is made and the stage fails.
\<close>

theorem long_prompt_is_truncated_then_trimmed:
  assumes "500 < length p" and "trim p \<noteq> []"
    and "w = (case widthArg of None \<Rightarrow> 1024 | Some x \<Rightarrow> x)"
    and "h = (case heightArg of None \<Rightarrow> 1024 | Some x \<Rightarrow> x)"
  shows "\<exists>r. snd (generateImage fetch p widthArg heightArg) = Inr r
     \<and> originalPrompt r = take 500 p
     \<and> length (originalPrompt r) = 500
     \<and> length (trim (take 500 p)) \<le> 500
     \<and> (\<forall>enc. encodeURIComponent (trim (take 500 p)) = Some enc \<longrightarrow>
           fst (generateImage fetch p widthArg heightArg)
             = [Fetch (requestUrl enc (clampSize w) (clampSize h))])
     \<and> (encodeURIComponent (trim (take 500 p)) = None \<longrightarrow>
           fst (generateImage fetch p widthArg heightArg) = [] \<and> \<not> success r)"
proof -
  from generateImage_returns [of fetch p widthArg heightArg] obtain r where
    r: "snd (generateImage fetch p widthArg heightArg) = Inr r" by blast
  from generateImage_originalPrompt [OF assms(2) r] assms(1)
  have orig: "originalPrompt r = take 500 p"
    by (simp add: substring_from_0)
  with assms(1) have len: "length (originalPrompt r) = 500"
    by simp
  have short: "length (trim (take 500 p)) \<le> 500"
    using length_trim_le [of "take 500 p"] by simp
  have issued: "\<forall>enc. encodeURIComponent (trim (take 500 p)) = Some enc \<longrightarrow>
           fst (generateImage fetch p widthArg heightArg)
             = [Fetch (requestUrl enc (clampSize w) (clampSize h))]"
  proof (intro allI impI)
    fix enc assume "encodeURIComponent (trim (take 500 p)) = Some enc"
    with assms(1) have
      "encodeURIComponent (trim (if length p > 500 then substring p 0 500 else p)) = Some enc"
      by (simp add: substring_from_0)
    from generateImage_try_calls [OF assms(2) this, of fetch w h] assms(3,4)
    show "fst (generateImage fetch p widthArg heightArg)
             = [Fetch (requestUrl enc (clampSize w) (clampSize h))]"
      by (simp add: generateImage_fst)
  qed
  have refused: "encodeURIComponent (trim (take 500 p)) = None \<longrightarrow>
           fst (generateImage fetch p widthArg heightArg) = [] \<and> \<not> success r"
  proof
    assume "encodeURIComponent (trim (take 500 p)) = None"
    with assms(1) have
      "encodeURIComponent (trim (if length p > 500 then substring p 0 500 else p)) = None"
      by (simp add: substring_from_0)
    from generateImage_unencodable [OF assms(2) this, of fetch widthArg heightArg] r
    show "fst (generateImage fetch p widthArg heightArg) = [] \<and> \<not> success r"
      by auto
  qed
  from r orig len short issued refused show ?thesis
    by (intro exI [of _ r] conjI)
qed

theorem long_prompt_is_truncated_then_trimmed_witness:
  "500 < length paddedPrompt \<and> trim paddedPrompt \<noteq> []
   \<and> encodeURIComponent (trim (take 500 paddedPrompt)) = Some (replicate 499 0x61)
   \<and> (\<exists>r. snd (generateImage (fetchGives (Responded pngResponse)) paddedPrompt None None) = Inr r
          \<and> originalPrompt r = take 500 paddedPrompt
          \<and> length (originalPrompt r) = 500)
   \<and> fst (generateImage (fetchGives (Responded pngResponse)) paddedPrompt None None)
       = [Fetch (requestUrl (replicate 499 0x61) (clampSize 1024) (clampSize 1024))]"
proof -
  have ws: "isWhiteSpace 0x20" and letter: "\<not> isWhiteSpace 0x61" and plain: "isUnescaped 0x61"
    by (simp_all add: isWhiteSpace_def isUnescaped_def)
  have len: "500 < length paddedPrompt"
    by (simp add: paddedPrompt_def)
  have "trim paddedPrompt = replicate (Suc 499) 0x61"
    using trim_padded [OF ws letter, of 499] by (simp add: paddedPrompt_def)
  then have nonblank: "trim paddedPrompt \<noteq> []"
    by simp
  have "take 500 paddedPrompt = 0x20 # replicate (Suc 498) 0x61"
    by (simp add: paddedPrompt_def)
  then have "trim (take 500 paddedPrompt) = replicate 499 0x61"
    using trim_padded [OF ws letter, of 498] by simp
  then have enc: "encodeURIComponent (trim (take 500 paddedPrompt)) = Some (replicate 499 0x61)"
    using encode_unescaped_replicate [OF plain, of 499] by simp
  have w: "(1024::int) = (case None of None \<Rightarrow> 1024 | Some x \<Rightarrow> x)"
    by simp
  from long_prompt_is_truncated_then_trimmed
    [OF len nonblank w w, of "fetchGives (Responded pngResponse)"] len nonblank enc
  show ?thesis by blast
qed

subsection \<open>Parsing the envelope\<close>

lemma JSON_parse_error: "JSON_parse s = Inl e \<Longrightarrow> e = SyntaxError"
  by (auto simp add: JSON_parse_def split: option.splits if_splits)

lemma jsToString_stringifiable:
  "jsToString numberToString x \<noteq> None \<longleftrightarrow> stringifiable x"
proof (induction x)
  case (JArray vs)
  have "None \<notin> set (map (\<lambda>v. case v of JNull \<Rightarrow> Some [] | _ \<Rightarrow> jsToString numberToString v) vs)
          \<longleftrightarrow> (\<forall>v \<in> set vs. stringifiable v)"
  proof
    assume none: "None \<notin> set (map (\<lambda>v. case v of JNull \<Rightarrow> Some [] | _ \<Rightarrow> jsToString numberToString v) vs)"
    show "\<forall>v \<in> set vs. stringifiable v"
    proof
      fix v assume v: "v \<in> set vs"
      with none have "(case v of JNull \<Rightarrow> Some [] | _ \<Rightarrow> jsToString numberToString v) \<noteq> None"
        by force
      with JArray.IH [OF v] show "stringifiable v"
        by (cases v) simp_all
    qed
  next
    assume all: "\<forall>v \<in> set vs. stringifiable v"
    show "None \<notin> set (map (\<lambda>v. case v of JNull \<Rightarrow> Some [] | _ \<Rightarrow> jsToString numberToString v) vs)"
    proof
      assume "None \<in> set (map (\<lambda>v. case v of JNull \<Rightarrow> Some [] | _ \<Rightarrow> jsToString numberToString v) vs)"
      then obtain v where v: "v \<in> set vs"
        and none: "(case v of JNull \<Rightarrow> Some [] | _ \<Rightarrow> jsToString numberToString v) = None"
        by auto
      have "jsToString numberToString v = None"
        using none by (cases v) simp_all
      with JArray.IH [OF v] all v show False
        by simp
    qed
  qed
  then show ?case
    by (simp add: Let_def) blast
qed simp_all

lemma chatIdOf_returns:
  assumes "messageData \<noteq> JNull"
    and "\<forall>x. optionalProperty
               (optionalProperty (getProperty messageData (js ''message'')) (js ''chat''))
               (js ''id'') = Some x \<longrightarrow> stringifiable x"
  shows "\<exists>c. chatIdOf numberToString messageData = Inr c"
proof (cases "optionalProperty
               (optionalProperty (getProperty messageData (js ''message'')) (js ''chat''))
               (js ''id'')")
  case None
  with assms(1) show ?thesis
    by (cases messageData) (simp_all add: chatIdOf_def)
next
  case (Some x)
  with assms(2) have "stringifiable x" by simp
  then obtain s where "jsToString numberToString x = Some s"
    using jsToString_stringifiable [of numberToString x] by auto
  with assms(1) Some show ?thesis
    by (cases messageData; cases x) (simp_all add: chatIdOf_def)
qed

lemma chatIdOf_throws:
  assumes "messageData = JNull
         \<or> (\<exists>x. optionalProperty
                   (optionalProperty (getProperty messageData (js ''message'')) (js ''chat''))
                   (js ''id'') = Some x \<and> \<not> stringifiable x)"
  shows "chatIdOf numberToString messageData = Inl TypeError"
proof (cases "messageData = JNull")
  case True
  then show ?thesis by (simp add: chatIdOf_def)
next
  case False
  with assms obtain x where x: "optionalProperty
                   (optionalProperty (getProperty messageData (js ''message'')) (js ''chat''))
                   (js ''id'') = Some x" and "\<not> stringifiable x"
    by blast
  then have "jsToString numberToString x = None" and "x \<noteq> JNull"
    using jsToString_stringifiable [of numberToString x] by auto
  with False x show ?thesis
    by (cases messageData; cases x) (simp_all add: chatIdOf_def)
qed

text \<open>
  The inputs on which lines 30 and 35 raise a TypeError: the envelope \<open>null\<close>, a chat id
  that cannot be converted, and, with a logger, a truthy text that is not a string.
\<close>

lemma useAgentStep_parse_TypeError:
  assumes "JSON_parse s = Inr messageData"
    and "messageData = JNull
       \<or> (\<exists>x. optionalProperty
                 (optionalProperty (getProperty messageData (js ''message'')) (js ''chat''))
                 (js ''id'') = Some x \<and> \<not> stringifiable x)
       \<or> (logger \<and> (\<exists>v. optionalProperty (getProperty messageData (js ''message'')) (js ''text'')
                            = Some v \<and> truthy v \<and> (\<forall>p. v \<noteq> JString p)))"
  shows "useAgentStep_parse logger numberToString s = Inl TypeError"
proof (cases "chatIdOf numberToString messageData")
  case (Inl e)
  have "e = TypeError"
    using Inl
    by (auto simp add: chatIdOf_def split: json.splits option.splits)
  with Inl assms(1) show ?thesis
    by (simp add: useAgentStep_parse_def)
next
  case (Inr c)
  with chatIdOf_throws [of messageData numberToString] assms(2)
  obtain v where "logger"
    and "optionalProperty (getProperty messageData (js ''message'')) (js ''text'') = Some v"
    and "truthy v" and "\<forall>p. v \<noteq> JString p"
    by auto
  then have "logger" and "messageTextPreview (messageTextOf messageData) = Inl TypeError"
    by (cases v; simp add: messageTextOf_def messageTextPreview_def)+
  with Inr assms(1) show ?thesis
    by (simp add: useAgentStep_parse_def)
qed

text \<open>
  Claim C6 as stated fails: \<open>JSON.parse\<close> stands outside any try block, so an envelope
  that is not JSON makes the step throw a SyntaxError, with or without a logger.
\<close>

theorem envelope_parsing_counterexample:
  "useAgentStep_execute True integerToString (agentReplies (js ''Hello!'')) brokenEnvelope
       (js ''thread-1'') = Inl SyntaxError
   \<and> useAgentStep_execute False integerToString (agentReplies (js ''Hello!'')) brokenEnvelope
       (js ''thread-1'') = Inl SyntaxError"
  by (simp add: useAgentStep_execute_def useAgentStep_parse_def JSON_parse_def brokenEnvelope_def
      js_def skipSpace_def isJsonSpace_def isDigit_def)

text \<open>
  Claim C6, amended. An envelope that \<open>JSON.parse\<close> rejects makes the step throw that
  SyntaxError. For every envelope that parses to a value other than \<open>null\<close>, in which
  \<open>message.chat.id\<close>, where present, converts to a string (it is not an object with a
  \<open>toString\<close> member, nor an array that holds one) and, when the step has a logger,
  \<open>message.text\<close> is a string wherever it is truthy, the message-parsing lines 29 to 36
  do not throw and the step ends as the agent call ends. The \<open>messageText\<close> is the text
  when that is truthy; when \<open>message\<close> or \<open>message.text\<close> is missing or the text is falsy
  it is the empty string, and that prompt is rejected by each stage without an external
  call.
\<close>

theorem envelope_parsing:
  "(\<forall>e. JSON_parse s = Inl e \<longrightarrow>
        useAgentStep_parse logger numberToString s = Inl SyntaxError
        \<and> useAgentStep_execute logger numberToString agent s threadId = Inl SyntaxError)
   \<and> (\<forall>messageData.
         JSON_parse s = Inr messageData \<and> messageData \<noteq> JNull
         \<and> (\<forall>x. optionalProperty
                    (optionalProperty (getProperty messageData (js ''message'')) (js ''chat''))
                    (js ''id'') = Some x \<longrightarrow> stringifiable x)
         \<and> (logger \<longrightarrow>
               (\<forall>v. optionalProperty (getProperty messageData (js ''message'')) (js ''text'') = Some v
                      \<and> truthy v \<longrightarrow> (\<exists>p. v = JString p)))
         \<longrightarrow>
         (\<exists>c t. useAgentStep_parse logger numberToString s = Inr (c, t)
            \<and> useAgentStep_execute logger numberToString agent s threadId =
                 (case agent threadId t of
                    Inl e \<Rightarrow> Inl (AgentRejected e)
                  | Inr reply \<Rightarrow> Inr (reply, c, t))
            \<and> (\<forall>v. optionalProperty (getProperty messageData (js ''message'')) (js ''text'') = Some v
                      \<and> truthy v \<longrightarrow> t = v)
            \<and> (optionalProperty (getProperty messageData (js ''message'')) (js ''text'') = None
                 \<or> (\<exists>v. optionalProperty (getProperty messageData (js ''message'')) (js ''text'')
                            = Some v \<and> \<not> truthy v)
                 \<longrightarrow>
                 (\<exists>p. t = JString p \<and> p = []
                    \<and> (\<exists>r. enhancePrompt generateText p styleArg = ([], Inr r) \<and> \<not> success r)
                    \<and> (\<exists>r. generateImage fetch p widthArg heightArg = ([], Inr r) \<and> \<not> success r)
                    \<and> (\<exists>r. generateAsciiArt generateText' p = ([], Inr r) \<and> \<not> success r)))))"
proof (intro conjI allI impI)
  fix e assume "JSON_parse s = Inl e"
  with JSON_parse_error [of s e]
  show "useAgentStep_parse logger numberToString s = Inl SyntaxError"
    and "useAgentStep_execute logger numberToString agent s threadId = Inl SyntaxError"
    by (simp_all add: useAgentStep_execute_def useAgentStep_parse_def)
next
  fix messageData
  let ?text = "optionalProperty (getProperty messageData (js ''message'')) (js ''text'')"
  assume h: "JSON_parse s = Inr messageData \<and> messageData \<noteq> JNull
         \<and> (\<forall>x. optionalProperty
                    (optionalProperty (getProperty messageData (js ''message'')) (js ''chat''))
                    (js ''id'') = Some x \<longrightarrow> stringifiable x)
         \<and> (logger \<longrightarrow> (\<forall>v. ?text = Some v \<and> truthy v \<longrightarrow> (\<exists>p. v = JString p)))"
  then obtain c where c: "chatIdOf numberToString messageData = Inr c"
    using chatIdOf_returns [of messageData numberToString] by blast
  have preview: "logger \<longrightarrow> (\<exists>q. messageTextPreview (messageTextOf messageData) = Inr q)"
  proof
    assume "logger"
    with h have strings: "\<forall>v. ?text = Some v \<and> truthy v \<longrightarrow> (\<exists>p. v = JString p)"
      by blast
    show "\<exists>q. messageTextPreview (messageTextOf messageData) = Inr q"
    proof (cases ?text)
      case None
      then show ?thesis
        by (simp add: messageTextOf_def messageTextPreview_def)
    next
      case (Some v)
      show ?thesis
      proof (cases "truthy v")
        case True
        with Some strings obtain p where "v = JString p" by blast
        with Some True show ?thesis
          by (simp add: messageTextOf_def messageTextPreview_def)
      next
        case False
        with Some show ?thesis
          by (simp add: messageTextOf_def messageTextPreview_def)
      qed
    qed
  qed
  from h c preview
  have parsed: "useAgentStep_parse logger numberToString s = Inr (c, messageTextOf messageData)"
    by (auto simp add: useAgentStep_parse_def Let_def)
  then have executed: "useAgentStep_execute logger numberToString agent s threadId =
      (case agent threadId (messageTextOf messageData) of
         Inl e \<Rightarrow> Inl (AgentRejected e)
       | Inr reply \<Rightarrow> Inr (reply, c, messageTextOf messageData))"
    by (simp add: useAgentStep_execute_def)
  have kept: "\<forall>v. ?text = Some v \<and> truthy v \<longrightarrow> messageTextOf messageData = v"
    by (simp add: messageTextOf_def)
  have emptied: "?text = None \<or> (\<exists>v. ?text = Some v \<and> \<not> truthy v) \<longrightarrow>
      (\<exists>p. messageTextOf messageData = JString p \<and> p = []
         \<and> (\<exists>r. enhancePrompt generateText p styleArg = ([], Inr r) \<and> \<not> success r)
         \<and> (\<exists>r. generateImage fetch p widthArg heightArg = ([], Inr r) \<and> \<not> success r)
         \<and> (\<exists>r. generateAsciiArt generateText' p = ([], Inr r) \<and> \<not> success r))"
  proof
    assume "?text = None \<or> (\<exists>v. ?text = Some v \<and> \<not> truthy v)"
    then have "messageTextOf messageData = JString []"
      by (auto simp add: messageTextOf_def)
    then show "\<exists>p. messageTextOf messageData = JString p \<and> p = []
         \<and> (\<exists>r. enhancePrompt generateText p styleArg = ([], Inr r) \<and> \<not> success r)
         \<and> (\<exists>r. generateImage fetch p widthArg heightArg = ([], Inr r) \<and> \<not> success r)
         \<and> (\<exists>r. generateAsciiArt generateText' p = ([], Inr r) \<and> \<not> success r)"
      by (simp add: enhancePrompt_blank generateImage_blank generateAsciiArt_blank
          enhancePrompt_catch_def generateImage_catch_def generateAsciiArt_catch_def)
  qed
  from parsed executed kept emptied
  show "\<exists>c t. useAgentStep_parse logger numberToString s = Inr (c, t)
            \<and> useAgentStep_execute logger numberToString agent s threadId =
                 (case agent threadId t of
                    Inl e \<Rightarrow> Inl (AgentRejected e)
                  | Inr reply \<Rightarrow> Inr (reply, c, t))
            \<and> (\<forall>v. ?text = Some v \<and> truthy v \<longrightarrow> t = v)
            \<and> (?text = None \<or> (\<exists>v. ?text = Some v \<and> \<not> truthy v)
                 \<longrightarrow>
                 (\<exists>p. t = JString p \<and> p = []
                    \<and> (\<exists>r. enhancePrompt generateText p styleArg = ([], Inr r) \<and> \<not> success r)
                    \<and> (\<exists>r. generateImage fetch p widthArg heightArg = ([], Inr r) \<and> \<not> success r)
                    \<and> (\<exists>r. generateAsciiArt generateText' p = ([], Inr r) \<and> \<not> success r)))"
    by (intro exI [of _ c] exI [of _ "messageTextOf messageData"] conjI)
qed

lemma parse_brokenEnvelope: "JSON_parse brokenEnvelope = Inl SyntaxError"
  by (simp add: JSON_parse_def brokenEnvelope_def js_def skipSpace_def isJsonSpace_def isDigit_def)

lemma parse_noTextEnvelope:
  "JSON_parse noTextEnvelope =
     Inr (JObject [(js ''message'', JObject [(js ''chat'', JObject [(js ''id'', JNumber 42 0)])])])"
  by (simp add: JSON_parse_def noTextEnvelope_def js_def skipSpace_def isJsonSpace_def isDigit_def
      parseNumber_def parseFraction_def parseExponent_def digitsValue_def)

lemma parse_listIdEnvelope:
  "JSON_parse listIdEnvelope =
     Inr (JObject [(js ''message'',
            JObject [(js ''chat'', JObject [(js ''id'', JArray [JNumber 1 0, JNumber 2 0])]),
                     (js ''text'', JString (js ''a cat''))])])"
  by (simp add: JSON_parse_def listIdEnvelope_def js_def skipSpace_def isJsonSpace_def isDigit_def
      parseNumber_def parseFraction_def parseExponent_def digitsValue_def)

theorem envelope_parsing_witness:
  "JSON_parse brokenEnvelope = Inl SyntaxError
   \<and> useAgentStep_execute True integerToString (agentReplies (js ''Hello!'')) brokenEnvelope
        (js ''thread-1'') = Inl SyntaxError
   \<and> JSON_parse noTextEnvelope =
       Inr (JObject [(js ''message'', JObject [(js ''chat'', JObject [(js ''id'', JNumber 42 0)])])])
   \<and> useAgentStep_parse True integerToString noTextEnvelope = Inr (js ''42'', JString [])
   \<and> useAgentStep_execute True integerToString (agentReplies (js ''Hello!'')) noTextEnvelope
        (js ''thread-1'') = Inr (js ''Hello!'', js ''42'', JString [])
   \<and> (\<exists>r. generateImage (fetchGives (Responded pngResponse)) [] None None = ([], Inr r)
          \<and> \<not> success r)
   \<and> useAgentStep_parse True integerToString listIdEnvelope
        = Inr (js ''1,2'', JString (js ''a cat''))"
proof -
  let ?noText = "JObject [(js ''message'', JObject [(js ''chat'', JObject [(js ''id'', JNumber 42 0)])])]"
  let ?listId = "JObject [(js ''message'',
            JObject [(js ''chat'', JObject [(js ''id'', JArray [JNumber 1 0, JNumber 2 0])]),
                     (js ''text'', JString (js ''a cat''))])]"
  have id1: "optionalProperty (optionalProperty (getProperty ?noText (js ''message'')) (js ''chat''))
      (js ''id'') = Some (JNumber 42 0)"
    and text1: "optionalProperty (getProperty ?noText (js ''message'')) (js ''text'') = None"
    by (simp_all add: optionalProperty_def getProperty_def getMember_def js_def)
  have id2: "optionalProperty (optionalProperty (getProperty ?listId (js ''message'')) (js ''chat''))
      (js ''id'') = Some (JArray [JNumber 1 0, JNumber 2 0])"
    and text2: "optionalProperty (getProperty ?listId (js ''message'')) (js ''text'')
      = Some (JString (js ''a cat''))"
    by (simp_all add: optionalProperty_def getProperty_def getMember_def js_def)
  have hyp1: "JSON_parse noTextEnvelope = Inr ?noText \<and> ?noText \<noteq> JNull
      \<and> (\<forall>x. optionalProperty (optionalProperty (getProperty ?noText (js ''message'')) (js ''chat''))
                (js ''id'') = Some x \<longrightarrow> stringifiable x)
      \<and> (True \<longrightarrow> (\<forall>v. optionalProperty (getProperty ?noText (js ''message'')) (js ''text'') = Some v
                      \<and> truthy v \<longrightarrow> (\<exists>p. v = JString p)))"
    using parse_noTextEnvelope id1 text1 by auto
  have hyp2: "JSON_parse listIdEnvelope = Inr ?listId \<and> ?listId \<noteq> JNull
      \<and> (\<forall>x. optionalProperty (optionalProperty (getProperty ?listId (js ''message'')) (js ''chat''))
                (js ''id'') = Some x \<longrightarrow> stringifiable x)
      \<and> (True \<longrightarrow> (\<forall>v. optionalProperty (getProperty ?listId (js ''message'')) (js ''text'') = Some v
                      \<and> truthy v \<longrightarrow> (\<exists>p. v = JString p)))"
    using parse_listIdEnvelope id2 text2 by auto
  note broken = envelope_parsing
    [of brokenEnvelope True integerToString "agentReplies (js ''Hello!'')" "js ''thread-1''"]
  from conjunct1 [OF broken, THEN spec, of SyntaxError, THEN mp, OF parse_brokenEnvelope]
  have thrown: "useAgentStep_execute True integerToString (agentReplies (js ''Hello!''))
      brokenEnvelope (js ''thread-1'') = Inl SyntaxError"
    by (rule conjunct2)
  note noText = envelope_parsing
    [of noTextEnvelope True integerToString "agentReplies (js ''Hello!'')" "js ''thread-1''"
        "textReplies []" None "fetchGives (Responded pngResponse)" None None "textReplies []"]
  from conjunct2 [OF noText, THEN spec, of ?noText, THEN mp, OF hyp1]
  obtain c t where parsed1: "useAgentStep_parse True integerToString noTextEnvelope = Inr (c, t)"
    and executed1: "useAgentStep_execute True integerToString (agentReplies (js ''Hello!''))
        noTextEnvelope (js ''thread-1'') =
          (case agentReplies (js ''Hello!'') (js ''thread-1'') t of
             Inl e \<Rightarrow> Inl (AgentRejected e)
           | Inr reply \<Rightarrow> Inr (reply, c, t))"
    and missing1: "optionalProperty (getProperty ?noText (js ''message'')) (js ''text'') = None
         \<or> (\<exists>v. optionalProperty (getProperty ?noText (js ''message'')) (js ''text'') = Some v
                 \<and> \<not> truthy v)
         \<longrightarrow>
         (\<exists>p. t = JString p \<and> p = []
            \<and> (\<exists>r. enhancePrompt (textReplies []) p None = ([], Inr r) \<and> \<not> success r)
            \<and> (\<exists>r. generateImage (fetchGives (Responded pngResponse)) p None None = ([], Inr r)
                   \<and> \<not> success r)
            \<and> (\<exists>r. generateAsciiArt (textReplies []) p = ([], Inr r) \<and> \<not> success r))"
    by blast
  from missing1 text1 have empty1: "t = JString []"
    and rejected: "\<exists>r. generateImage (fetchGives (Responded pngResponse)) [] None None = ([], Inr r)
          \<and> \<not> success r"
    by auto
  have "chatIdOf integerToString ?noText = Inr (js ''42'')"
    by (simp add: chatIdOf_def id1 integerToString_def intToString_def)
       (simp add: js_def decimal.simps digitChar_def)
  with parsed1 parse_noTextEnvelope have c1: "c = js ''42''"
    by (simp add: useAgentStep_parse_def Let_def split: sum.splits if_splits)
  note listId = envelope_parsing
    [of listIdEnvelope True integerToString "agentReplies (js ''Hello!'')" "js ''thread-1''"
        "textReplies []" None "fetchGives (Responded pngResponse)" None None "textReplies []"]
  from conjunct2 [OF listId, THEN spec, of ?listId, THEN mp, OF hyp2]
  obtain c' t' where parsed2: "useAgentStep_parse True integerToString listIdEnvelope = Inr (c', t')"
    and kept: "\<forall>v. optionalProperty (getProperty ?listId (js ''message'')) (js ''text'') = Some v
                      \<and> truthy v \<longrightarrow> t' = v"
    by blast
  have "truthy (JString (js ''a cat''))"
    by simp
  with kept text2 have kept2: "t' = JString (js ''a cat'')"
    by blast
  have "chatIdOf integerToString ?listId = Inr (js ''1,2'')"
    by (simp add: chatIdOf_def id2 integerToString_def intToString_def Let_def)
       (simp add: js_def decimal.simps digitChar_def)
  with parsed2 parse_listIdEnvelope have c2: "c' = js ''1,2''"
    by (simp add: useAgentStep_parse_def Let_def split: sum.splits if_splits)
  from parse_brokenEnvelope thrown parse_noTextEnvelope parsed1 executed1 empty1 c1 rejected
    parsed2 kept2 c2
  show ?thesis
    by (simp add: agentReplies_def)
qed

subsection \<open>The length tests of the parser never fail\<close>

text \<open>
  Every successful parse consumes input, so the tests \<open>length r < length s\<close> inside
  \<open>parseElements\<close> and \<open>parseMembers\<close> are always passed: both functions satisfy their
  equations with the tests removed.
\<close>

lemma parseChars_shorter: "parseChars cs acc = Some (k, r) \<Longrightarrow> length r < length cs"
proof (induction cs acc rule: parseChars.induct)
  case (1 acc)
  then show ?case by simp
next
  case (2 c cs acc)
  then show ?case
    by (auto split: if_splits list.splits option.splits) fastforce+
qed

lemma parseFraction_le: "parseFraction s = Some (f, r) \<Longrightarrow> length r \<le> length s"
  by (auto simp add: parseFraction_def length_dropWhile_le le_SucI split: list.splits if_splits)

lemma parseExponent_le: "parseExponent s = Some (ex, r) \<Longrightarrow> length r \<le> length s"
  by (auto simp add: parseExponent_def Let_def length_dropWhile_le le_SucI
      intro: order_trans [OF length_dropWhile_le]
      split: list.splits if_splits prod.splits)

lemma digits_consumed:
  assumes "isDigit d"
  shows "length (if d = 0x30 then ds else dropWhile isDigit (d # ds)) \<le> length ds"
  using assms by (simp add: length_dropWhile_le)

lemma parseNumber_shorter:
  assumes "parseNumber s = Some (v, r)"
  shows "length r < length s"
proof -
  obtain negative s1 where sign:
    "(negative, s1) = (case s of [] \<Rightarrow> (False, s) | c # cs \<Rightarrow> if c = 0x2D then (True, cs) else (False, s))"
    by (metis surj_pair)
  then have s1: "length s1 \<le> length s"
    by (auto split: list.splits if_splits)
  from assms sign [symmetric] obtain d ds where cons: "s1 = d # ds" and digit: "isDigit d"
    by (cases s1) (auto simp add: parseNumber_def Let_def split: if_splits)
  let ?s2 = "if d = 0x30 then ds else dropWhile isDigit (d # ds)"
  from assms sign [symmetric] cons digit obtain f s3 ex where
    fr: "parseFraction ?s2 = Some (f, s3)" and exp: "parseExponent s3 = Some (ex, r)"
    by (auto simp add: parseNumber_def Let_def split: if_splits option.splits)
  from parseFraction_le [OF fr] parseExponent_le [OF exp] digits_consumed [OF digit, of ds]
  have "length r \<le> length ds" by linarith
  with cons s1 show ?thesis by simp
qed


declare parseElements.simps [simp del] parseMembers.simps [simp del]

lemma parse_shorter:
  "\<forall>v r. parseValue s = Some (v, r) \<longrightarrow> length r < length s"
  "\<forall>vs r. parseElements s1 acc1 = Some (vs, r) \<longrightarrow> length r < length s1"
  "\<forall>ms r. parseMembers s2 acc2 = Some (ms, r) \<longrightarrow> length r < length s2"
proof (induction s and s1 acc1 and s2 acc2 rule: parseValue_parseElements_parseMembers.induct)
  case 1
  then show ?case by simp
next
  case (2 c cs)
  show ?case
  proof (intro allI impI)
    fix v r assume parsed: "parseValue (c # cs) = Some (v, r)"
    consider (obj) "c = 0x7B" | (arr) "c \<noteq> 0x7B" "c = 0x5B" | (str) "c \<noteq> 0x7B" "c \<noteq> 0x5B" "c = 0x22"
      | (other) "c \<noteq> 0x7B" "c \<noteq> 0x5B" "c \<noteq> 0x22"
      by blast
    then show "length r < length (c # cs)"
    proof cases
      case obj
      with parsed obtain d ds where sk: "skipSpace cs = d # ds"
        by (cases "skipSpace cs") auto
      show ?thesis
      proof (cases "d = 0x7D")
        case True
        with parsed obj sk skipSpace_Cons_shorter [OF sk] show ?thesis by auto
      next
        case False
        with parsed obj sk obtain members where "parseMembers (d # ds) [] = Some (members, r)"
          by (auto split: option.splits)
        with "2.IH"(1) [OF obj sk False] have "length r < length (d # ds)" by blast
        with skipSpace_Cons_shorter [OF sk] show ?thesis by simp
      qed
    next
      case arr
      with parsed obtain d ds where sk: "skipSpace cs = d # ds"
        by (cases "skipSpace cs") auto
      show ?thesis
      proof (cases "d = 0x5D")
        case True
        with parsed arr sk skipSpace_Cons_shorter [OF sk] show ?thesis by auto
      next
        case False
        with parsed arr sk obtain elements where "parseElements (d # ds) [] = Some (elements, r)"
          by (auto split: option.splits)
        with "2.IH"(2) [OF arr sk False] have "length r < length (d # ds)" by blast
        with skipSpace_Cons_shorter [OF sk] show ?thesis by simp
      qed
    next
      case str
      with parsed obtain k where "parseChars cs [] = Some (k, r)"
        by (auto split: option.splits)
      from parseChars_shorter [OF this] show ?thesis by simp
    next
      case other
      with parsed parseNumber_shorter [of "c # cs" v r] show ?thesis
        by (auto split: if_splits)
    qed
  qed
next
  case (3 s acc)
  show ?case
  proof (intro allI impI)
    fix vs r assume parsed: "parseElements s acc = Some (vs, r)"
    note unfolded = parsed [unfolded parseElements.simps [of s acc]]
    from unfolded obtain v r0 where pv: "parseValue s = Some (v, r0)" and lt: "length r0 < length s"
      by (auto simp del: parseElements.simps parseMembers.simps split: option.splits if_splits)
    with unfolded obtain d ds where sk: "skipSpace r0 = d # ds"
      by (cases "skipSpace r0") (auto simp del: parseElements.simps parseMembers.simps)
    show "length r < length s"
    proof (cases "d = 0x2C")
      case True
      with unfolded pv lt sk have "parseElements (skipSpace ds) (v # acc) = Some (vs, r)"
        by (simp del: parseElements.simps parseMembers.simps)
      moreover have "\<forall>vs r. parseElements (skipSpace ds) (v # acc) = Some (vs, r)
          \<longrightarrow> length r < length (skipSpace ds)"
        using "3.IH"(2) pv lt sk True by blast
      ultimately have "length r < length (skipSpace ds)" by blast
      with skipSpace_Cons_shorter [OF sk] lt show ?thesis by simp
    next
      case False
      with unfolded pv lt sk have "r = ds"
        by (auto simp del: parseElements.simps parseMembers.simps split: if_splits)
      with skipSpace_Cons_shorter [OF sk] lt show ?thesis by simp
    qed
  qed
next
  case (4 s acc)
  show ?case
  proof (intro allI impI)
    fix ms r assume parsed: "parseMembers s acc = Some (ms, r)"
    note unfolded = parsed [unfolded parseMembers.simps [of s acc]]
    from unfolded obtain q cs where s: "s = q # cs" and q: "q = 0x22"
      by (cases s) (auto simp del: parseElements.simps parseMembers.simps split: if_splits)
    from unfolded s q obtain k r1 where pc: "parseChars cs [] = Some (k, r1)"
      by (auto simp del: parseElements.simps parseMembers.simps split: option.splits)
    from unfolded s q pc obtain colon r2 where sk1: "skipSpace r1 = colon # r2"
      by (cases "skipSpace r1") (auto simp del: parseElements.simps parseMembers.simps)
    from unfolded s q pc sk1 have guard: "colon = 0x3A \<and> length (skipSpace r2) < length s"
      by (auto simp del: parseElements.simps parseMembers.simps split: if_splits)
    from unfolded s q pc sk1 guard obtain v r3 where
      pv: "parseValue (skipSpace r2) = Some (v, r3)" and lt: "length r3 < length (skipSpace r2)"
      by (auto simp del: parseElements.simps parseMembers.simps split: option.splits if_splits)
    from unfolded s q pc sk1 guard pv lt obtain d ds where sk2: "skipSpace r3 = d # ds"
      by (cases "skipSpace r3") (auto simp del: parseElements.simps parseMembers.simps)
    show "length r < length s"
    proof (cases "d = 0x2C")
      case True
      with unfolded s q pc sk1 guard pv lt sk2
      have "parseMembers (skipSpace ds) ((k, v) # acc) = Some (ms, r)"
        by (simp del: parseElements.simps parseMembers.simps)
      moreover have "\<forall>ms r. parseMembers (skipSpace ds) ((k, v) # acc) = Some (ms, r)
          \<longrightarrow> length r < length (skipSpace ds)"
        using "4.IH"(2) s q pc sk1 guard pv lt sk2 True by blast
      ultimately have "length r < length (skipSpace ds)" by blast
      with skipSpace_Cons_shorter [OF sk2] lt guard show ?thesis by simp
    next
      case False
      with unfolded s q pc sk1 guard pv lt sk2 have "r = ds"
        by (auto simp del: parseElements.simps parseMembers.simps split: if_splits)
      with skipSpace_Cons_shorter [OF sk2] lt guard show ?thesis by simp
    qed
  qed
qed


lemma parseElements_unguarded:
  "parseElements s acc =
     (case parseValue s of
        None \<Rightarrow> None
      | Some (v, r) \<Rightarrow>
          (case skipSpace r of
             [] \<Rightarrow> None
           | d # ds \<Rightarrow>
               if d = 0x2C then parseElements (skipSpace ds) (v # acc)
               else if d = 0x5D then Some (rev (v # acc), ds)
               else None))"
proof (cases "parseValue s")
  case None
  then show ?thesis
    by (subst parseElements.simps) simp
next
  case (Some vr)
  obtain v r where "vr = (v, r)" by (cases vr)
  with Some parse_shorter(1) [of s] have "parseValue s = Some (v, r)" and "length r < length s"
    by simp_all
  then show ?thesis
    by (subst parseElements.simps) simp
qed

lemma parseMembers_unguarded:
  "parseMembers s acc =
     (case s of
        [] \<Rightarrow> None
      | q # cs \<Rightarrow>
          if q = 0x22 then
            (case parseChars cs [] of
               None \<Rightarrow> None
             | Some (k, r) \<Rightarrow>
                 (case skipSpace r of
                    [] \<Rightarrow> None
                  | colon # r' \<Rightarrow>
                      if colon = 0x3A then
                        (case parseValue (skipSpace r') of
                           None \<Rightarrow> None
                         | Some (v, r'') \<Rightarrow>
                             (case skipSpace r'' of
                                [] \<Rightarrow> None
                              | d # ds \<Rightarrow>
                                  if d = 0x2C then parseMembers (skipSpace ds) ((k, v) # acc)
                                  else if d = 0x7D then Some (rev ((k, v) # acc), ds)
                                  else None))
                      else None))
          else None)"
proof (cases s)
  case Nil
  then show ?thesis
    by (subst parseMembers.simps) simp
next
  case (Cons q cs)
  show ?thesis
  proof (cases "parseChars cs []")
    case None
    with Cons show ?thesis
      by (subst parseMembers.simps) simp
  next
    case (Some kr)
    obtain k r where kr: "kr = (k, r)" by (cases kr)
    with Some have pc: "parseChars cs [] = Some (k, r)" by simp
    show ?thesis
    proof (cases "skipSpace r")
      case Nil
      with Cons pc show ?thesis
        by (subst parseMembers.simps) simp
    next
      case sk: (Cons colon r')
      from parseChars_shorter [OF pc] skipSpace_Cons_shorter [OF sk] Cons
      have guard1: "length (skipSpace r') < length s" by simp
      show ?thesis
      proof (cases "parseValue (skipSpace r')")
        case None
        with Cons pc sk guard1 show ?thesis
          by (subst parseMembers.simps) simp
      next
        case (Some vr)
        obtain v r'' where "vr = (v, r'')" by (cases vr)
        with Some have pv: "parseValue (skipSpace r') = Some (v, r'')" by simp
        with parse_shorter(1) [of "skipSpace r'"]
        have guard2: "length r'' < length (skipSpace r')" by blast
        from Cons pc sk guard1 pv guard2 show ?thesis
          by (subst parseMembers.simps) simp
      qed
    qed
  qed
qed

end
